theory Spec2Isabelle
  imports Main "HOL-Library.Word" "HOL-Library.Char_ord" "HOL-Library.List_Lexorder"
    "HOL-Library.AList" "HOL-Library.Multiset" "HOL-Library.Sublist"
begin

unbundle bit_operations_syntax

section \<open>Strings\<close>

text \<open>
  A Go string is a sequence of bytes, modelled as \<^typ>\<open>string\<close>. The functions of package
  \<^verbatim>\<open>strings\<close> that \<^verbatim>\<open>main.go\<close> calls are written out below.
\<close>

definition HasPrefix :: "string \<Rightarrow> string \<Rightarrow> bool" where
  "HasPrefix s p \<longleftrightarrow> length p \<le> length s \<and> take (length p) s = p"

definition HasSuffix :: "string \<Rightarrow> string \<Rightarrow> bool" where
  "HasSuffix s suf \<longleftrightarrow> length suf \<le> length s \<and> drop (length s - length suf) s = suf"

text \<open>
  \<^verbatim>\<open>strings.TrimSpace\<close> takes the white space of Unicode (\<^verbatim>\<open>unicode.IsSpace\<close>) off both
  ends of a string, decoding it as UTF-8. The white space is listed here by its encodings: the
  six characters of ASCII, U+0085, U+00A0, U+1680, U+2000 to U+200A, U+2028, U+2029, U+202F,
  U+205F and U+3000. Any other byte ends the trimming, also one that is not valid UTF-8 (Go
  decodes it to U+FFFD, which is no white space). Every encoding begins with a byte that
  continues no other encoding, so decoding from the right end finds the same characters.
\<close>

definition spaceSeqs :: "string list" where
  "spaceSeqs =
     [[CHR 0x09], [CHR 0x0A], [CHR 0x0B], [CHR 0x0C], [CHR 0x0D], [CHR 0x20],
      [CHR 0xC2, CHR 0x85], [CHR 0xC2, CHR 0xA0],
      [CHR 0xE1, CHR 0x9A, CHR 0x80],
      [CHR 0xE2, CHR 0x80, CHR 0x80], [CHR 0xE2, CHR 0x80, CHR 0x81],
      [CHR 0xE2, CHR 0x80, CHR 0x82], [CHR 0xE2, CHR 0x80, CHR 0x83],
      [CHR 0xE2, CHR 0x80, CHR 0x84], [CHR 0xE2, CHR 0x80, CHR 0x85],
      [CHR 0xE2, CHR 0x80, CHR 0x86], [CHR 0xE2, CHR 0x80, CHR 0x87],
      [CHR 0xE2, CHR 0x80, CHR 0x88], [CHR 0xE2, CHR 0x80, CHR 0x89],
      [CHR 0xE2, CHR 0x80, CHR 0x8A],
      [CHR 0xE2, CHR 0x80, CHR 0xA8], [CHR 0xE2, CHR 0x80, CHR 0xA9],
      [CHR 0xE2, CHR 0x80, CHR 0xAF],
      [CHR 0xE2, CHR 0x81, CHR 0x9F],
      [CHR 0xE3, CHR 0x80, CHR 0x80]]"

function trimLeft :: "string \<Rightarrow> string" where
  "trimLeft s =
     (case find (HasPrefix s) spaceSeqs of
        None \<Rightarrow> s
      | Some q \<Rightarrow> trimLeft (drop (length q) s))"
  by pat_completeness auto
termination
proof (relation "measure length", goal_cases)
  case 1
  show ?case by simp
next
  case (2 s q)
  then have "q \<in> set spaceSeqs" and "HasPrefix s q"
    by (auto simp: find_Some_iff)
  then have "0 < length q" and "length q \<le> length s"
    by (auto simp: spaceSeqs_def HasPrefix_def)
  then have "length s - length q < length s"
    by linarith
  then show ?case
    by simp
qed

function trimRight :: "string \<Rightarrow> string" where
  "trimRight s =
     (case find (HasSuffix s) spaceSeqs of
        None \<Rightarrow> s
      | Some q \<Rightarrow> trimRight (take (length s - length q) s))"
  by pat_completeness auto
termination
proof (relation "measure length", goal_cases)
  case 1
  show ?case by simp
next
  case (2 s q)
  then have "q \<in> set spaceSeqs" and "HasSuffix s q"
    by (auto simp: find_Some_iff)
  then have "0 < length q" and "length q \<le> length s"
    by (auto simp: spaceSeqs_def HasSuffix_def)
  then have "length s - length q < length s"
    by linarith
  then show ?case
    by simp
qed

declare trimLeft.simps [simp del]
declare trimRight.simps [simp del]

definition TrimSpace :: "string \<Rightarrow> string" where
  "TrimSpace s = trimRight (trimLeft s)"

text \<open>
  \<^verbatim>\<open>strings.ToLower\<close> lowers the bytes \<open>A\<close> to \<open>Z\<close> of a string that holds bytes of ASCII
  only. For a string with a byte above 127 it returns \<^verbatim>\<open>strings.Map(unicode.ToLower, s)\<close>,
  which decodes the string as UTF-8, lowers every code point by the case tables of package
  \<^verbatim>\<open>unicode\<close> and writes U+FFFD for a byte that is not valid UTF-8. Those tables are not part
  of this program: the mapping of such strings is the argument \<open>mapLower\<close> of the model, and
  what a property needs of it is stated where it is needed.
\<close>

definition isASCII :: "string \<Rightarrow> bool" where
  "isASCII s \<longleftrightarrow> list_all (\<lambda>c. c < CHR 0x80) s"

definition lowerByte :: "char \<Rightarrow> char" where
  "lowerByte c = (if CHR ''A'' \<le> c \<and> c \<le> CHR ''Z'' then char_of (of_char c + (32::nat)) else c)"

definition ToLower :: "(string \<Rightarrow> string) \<Rightarrow> string \<Rightarrow> string" where
  "ToLower mapLower s = (if isASCII s then map lowerByte s else mapLower s)"

fun Contains :: "string \<Rightarrow> string \<Rightarrow> bool" where
  "Contains [] sub = (sub = [])"
| "Contains (c # cs) sub = (HasPrefix (c # cs) sub \<or> Contains cs sub)"

text \<open>
  \<^verbatim>\<open>strings.ReplaceAll(s, old, new)\<close> with a non-empty \<^verbatim>\<open>old\<close>: the loop of \<^verbatim>\<open>strings.Replace\<close>
  finds the leftmost occurrence at or after \<^verbatim>\<open>start\<close>, copies the text before it and
  \<^verbatim>\<open>new\<close>, and continues behind the occurrence.
\<close>

function replaceFrom :: "string \<Rightarrow> string \<Rightarrow> string \<Rightarrow> string" where
  "replaceFrom old new [] = []"
| "replaceFrom old new (c # cs) =
     (if old \<noteq> [] \<and> HasPrefix (c # cs) old
      then new @ replaceFrom old new (drop (length old) (c # cs))
      else c # replaceFrom old new cs)"
  by pat_completeness auto
termination
  by (relation "measure (\<lambda>(old, new, s). length s)") (auto simp: neq_Nil_conv)

definition ReplaceAll :: "string \<Rightarrow> string \<Rightarrow> string \<Rightarrow> string" where
  "ReplaceAll s old new =
     (if old = new then s
      else if old = [] then new @ concat (map (\<lambda>c. c # new) s)
      else replaceFrom old new s)"

text \<open>\<^verbatim>\<open>strings.Split(s, sep)\<close> with a non-empty separator, and \<^verbatim>\<open>strings.Join\<close>.\<close>

function Split :: "string \<Rightarrow> string \<Rightarrow> string list" where
  "Split [] sep = [[]]"
| "Split (c # cs) sep =
     (if sep \<noteq> [] \<and> HasPrefix (c # cs) sep
      then [] # Split (drop (length sep) (c # cs)) sep
      else (case Split cs sep of [] \<Rightarrow> [[c]] | w # ws \<Rightarrow> (c # w) # ws))"
  by pat_completeness auto
termination
  by (relation "measure (\<lambda>(s, sep). length s)") (auto simp: neq_Nil_conv)

fun Join :: "string list \<Rightarrow> string \<Rightarrow> string" where
  "Join [] sep = []"
| "Join [x] sep = x"
| "Join (x # y # ys) sep = x @ sep @ Join (y # ys) sep"

section \<open>The configuration\<close>

record ProjectConfig =
  ProjectName :: string
  ProjectPath :: string
  ModulePath :: string
  Database :: string
  UseRedis :: bool
  UseRabbitMQ :: bool

section \<open>The prompt adapter\<close>

text \<open>
  The standard input is the list of the pieces in which it arrives: each piece is what one
  \<^verbatim>\<open>read\<close> of the file can return at most. A terminal hands over one line at a time; a pipe
  or a file hands over whatever is there, many lines at once. The end of the list is the end
  of the input; a \<^verbatim>\<open>read\<close> that returns nothing before that is tried again.

  A \<^verbatim>\<open>bufio.Reader\<close> is its buffer of 4096 bytes, of which the unread part is kept, and the
  file it reads. \<^verbatim>\<open>ReadString(delim)\<close> looks for the delimiter in the buffer; when it is not
  there, it hands out a full buffer as a fragment of the line, or else reads once from the
  file, as many bytes as the buffer has room for, and looks again. At the end of the input it
  returns what it has (the error it returns then is discarded by every caller). What the
  program prints is not modelled.
\<close>

type_synonym Stdin = "string list"
type_synonym Reader = "string \<times> Stdin"

definition NewReader :: "Stdin \<Rightarrow> Reader" where
  "NewReader stdin = ([], stdin)"

function ReadString :: "Reader \<Rightarrow> char \<Rightarrow> string \<times> Reader" where
  "ReadString (buf, stdin) delim =
     (if delim \<in> set buf
      then (takeWhile (\<lambda>c. c \<noteq> delim) buf @ [delim],
            (drop 1 (dropWhile (\<lambda>c. c \<noteq> delim) buf), stdin))
      else if 4096 \<le> length buf
      then (case ReadString ([], stdin) delim of (line, reader') \<Rightarrow> (buf @ line, reader'))
      else
        (case stdin of
           [] \<Rightarrow> (buf, ([], []))
         | chunk # rest \<Rightarrow>
             ReadString (buf @ take (4096 - length buf) chunk,
                         if length chunk \<le> 4096 - length buf then rest
                         else drop (4096 - length buf) chunk # rest) delim))"
  by pat_completeness auto
termination
  by (relation "measure (\<lambda>((buf, stdin), delim).
        2 * (sum_list (map length stdin) + length stdin) + (if 4096 \<le> length buf then 1 else 0))")
     auto

declare ReadString.simps [simp del]

text \<open>The bytes that a reader can still return.\<close>

definition unread :: "Reader \<Rightarrow> nat" where
  "unread reader = length (fst reader) + sum_list (map length (snd reader))"

text \<open>
  \<^verbatim>\<open>promptString\<close> asks again on an empty answer when there is no default. At the end of
  the input every answer is empty, so that recursion need not end: the function is partial.
\<close>

partial_function (option) promptString :: "Reader \<Rightarrow> string \<Rightarrow> string \<Rightarrow> (string \<times> Reader) option" where
  "promptString reader prompt defaultValue =
     (case ReadString reader CHR 0x0A of (input, reader') \<Rightarrow>
        (if TrimSpace input = [] \<and> defaultValue \<noteq> [] then Some (defaultValue, reader')
         else if TrimSpace input = [] then promptString reader' prompt defaultValue
         else Some (TrimSpace input, reader')))"

declare promptString.simps [code]

definition promptBool :: "(string \<Rightarrow> string) \<Rightarrow> Reader \<Rightarrow> string \<Rightarrow> bool \<times> Reader" where
  "promptBool mapLower reader prompt =
     (case ReadString reader CHR 0x0A of (input, reader') \<Rightarrow>
        (let input' = TrimSpace (ToLower mapLower input)
         in (input' = ''y'' \<or> input' = ''yes'', reader')))"

text \<open>
  \<^verbatim>\<open>promptChoice\<close> asks again on an answer outside \<^verbatim>\<open>validChoices\<close>. Such an answer is
  not empty, so each round consumes input, and the empty answer at the end of the input
  takes the default.
\<close>

function promptChoice :: "Reader \<Rightarrow> string \<Rightarrow> string list \<Rightarrow> string \<Rightarrow> string \<times> Reader" where
  "promptChoice reader prompt validChoices defaultChoice =
     (case ReadString reader CHR 0x0A of (input, reader') \<Rightarrow>
        (if TrimSpace input = [] then (defaultChoice, reader')
         else if TrimSpace input \<in> set validChoices then (TrimSpace input, reader')
         else promptChoice reader' prompt validChoices defaultChoice))"
  by pat_completeness auto
termination
proof (relation "measure (\<lambda>(reader, prompt, validChoices, defaultChoice). unread reader)",
       goal_cases)
  case 1
  show ?case by simp
next
  case (2 reader prompt validChoices defaultChoice input reader')
  have len: "length (fst (ReadString r d)) + unread (snd (ReadString r d)) = unread r" for r d
  proof (induction r d rule: ReadString.induct)
    case (1 buf stdin delim)
    show ?case
    proof (cases "delim \<in> set buf")
      case True
      then have eq: "ReadString (buf, stdin) delim =
          (takeWhile (\<lambda>c. c \<noteq> delim) buf @ [delim],
           (drop 1 (dropWhile (\<lambda>c. c \<noteq> delim) buf), stdin))"
        by (simp add: ReadString.simps [of buf stdin delim])
      from True have "dropWhile (\<lambda>c. c \<noteq> delim) buf \<noteq> []"
        by simp
      then have "Suc 0 \<le> length (dropWhile (\<lambda>c. c \<noteq> delim) buf)"
        by (cases "dropWhile (\<lambda>c. c \<noteq> delim) buf") simp_all
      moreover have "length (takeWhile (\<lambda>c. c \<noteq> delim) buf)
          + length (dropWhile (\<lambda>c. c \<noteq> delim) buf) = length buf"
        by (metis length_append takeWhile_dropWhile_id)
      ultimately have "length (takeWhile (\<lambda>c. c \<noteq> delim) buf) + 1
          + (length (dropWhile (\<lambda>c. c \<noteq> delim) buf) - 1) = length buf"
        by linarith
      then show ?thesis
        by (simp add: eq unread_def)
    next
      case False
      show ?thesis
      proof (cases "4096 \<le> length buf")
        case True
        with False "1.IH" (1) show ?thesis
          by (cases "ReadString ([], stdin) delim")
             (simp add: ReadString.simps [of buf stdin delim] unread_def)
      next
        case full: False
        show ?thesis
        proof (cases stdin)
          case Nil
          with False full show ?thesis
            by (simp add: ReadString.simps [of buf "[]" delim] unread_def)
        next
          case (Cons chunk rest)
          have room: "length (take (4096 - length buf) chunk)
              + sum_list (map length (if length chunk \<le> 4096 - length buf then rest
                                      else drop (4096 - length buf) chunk # rest))
              = length chunk + sum_list (map length rest)"
            by simp
          from False full Cons have "ReadString (buf, stdin) delim =
              ReadString (buf @ take (4096 - length buf) chunk,
                          if length chunk \<le> 4096 - length buf then rest
                          else drop (4096 - length buf) chunk # rest) delim"
            by (simp add: ReadString.simps [of buf "chunk # rest" delim])
          moreover from False full Cons "1.IH" (2) [of chunk rest]
          have "length (fst (ReadString (buf @ take (4096 - length buf) chunk,
                          if length chunk \<le> 4096 - length buf then rest
                          else drop (4096 - length buf) chunk # rest) delim))
              + unread (snd (ReadString (buf @ take (4096 - length buf) chunk,
                          if length chunk \<le> 4096 - length buf then rest
                          else drop (4096 - length buf) chunk # rest) delim))
              = unread (buf @ take (4096 - length buf) chunk,
                          if length chunk \<le> 4096 - length buf then rest
                          else drop (4096 - length buf) chunk # rest)"
            by blast
          moreover have "unread (buf @ take (4096 - length buf) chunk,
                          if length chunk \<le> 4096 - length buf then rest
                          else drop (4096 - length buf) chunk # rest) = unread (buf, stdin)"
            unfolding unread_def fst_conv snd_conv length_append Cons using room by simp
          ultimately show ?thesis
            by simp
        qed
      qed
    qed
  qed
  have "trimLeft [] = []"
    by (simp add: trimLeft.simps [of "[]"] spaceSeqs_def HasPrefix_def)
  moreover have "trimRight [] = []"
    by (simp add: trimRight.simps [of "[]"] spaceSeqs_def HasSuffix_def)
  ultimately have "TrimSpace [] = []"
    by (simp add: TrimSpace_def)
  with 2 have "input \<noteq> []"
    by auto
  then have "0 < length input"
    by simp
  moreover from 2 len [of reader "CHR 0x0A"] have "length input + unread reader' = unread reader"
    by (metis fst_conv snd_conv)
  ultimately have "unread reader' < unread reader"
    by linarith
  then show ?case
    by simp
qed

declare promptChoice.simps [simp del]

definition collectConfiguration :: "(string \<Rightarrow> string) \<Rightarrow> Reader \<Rightarrow> (ProjectConfig \<times> Reader) option" where
  "collectConfiguration mapLower reader =
     (case promptString reader ''What is your project name?'' ''my-go-api'' of
        None \<Rightarrow> None
      | Some (name, r1) \<Rightarrow>
     (case promptString r1 ''Where to create the project?'' (''./'' @ name) of
        None \<Rightarrow> None
      | Some (path, r2) \<Rightarrow>
     (case promptString r2 ''What is your Go module path?'' (''github.com/yourusername/'' @ name) of
        None \<Rightarrow> None
      | Some (module, r3) \<Rightarrow>
     (case promptChoice r3 ''Select database'' [''1'', ''2'', ''3''] ''1'' of (dbChoice, r4) \<Rightarrow>
     (case promptBool mapLower r4 ''Would you like to use Redis for caching?'' of (redis, r5) \<Rightarrow>
     (case promptBool mapLower r5 ''Would you like to use RabbitMQ for message queuing?'' of (rabbit, r6) \<Rightarrow>
        Some (\<lparr>ProjectName = name, ProjectPath = path, ModulePath = module,
                Database = (if dbChoice = ''1'' then ''mysql''
                            else if dbChoice = ''2'' then ''postgresql''
                            else if dbChoice = ''3'' then ''mongodb'' else []),
                UseRedis = redis, UseRabbitMQ = rabbit\<rparr>, r6)))))))"

text \<open>
  \<^verbatim>\<open>confirm\<close> opens a reader of its own on the standard input: it reads what the file still
  holds, and sees nothing of what another reader has taken into its buffer.
\<close>

definition confirm :: "(string \<Rightarrow> string) \<Rightarrow> Stdin \<Rightarrow> string \<Rightarrow> bool" where
  "confirm mapLower stdin prompt =
     (case ReadString (NewReader stdin) CHR 0x0A of (input, reader') \<Rightarrow>
        (let input' = TrimSpace (ToLower mapLower input)
         in input' = [] \<or> input' = ''y'' \<or> input' = ''yes''))"

section \<open>The file system\<close>

text \<open>
  The file system is a tree of regular files and directories; a node carries its
  permission bits. A path is kept as the list of its components, the form in which
  \<^verbatim>\<open>filepath.Clean\<close> leaves it; absolute and relative paths are resolved from the root of
  the tree, and there are no symbolic links. Permission checks are not modelled: an operation
  fails only for the shape of the tree (a missing entry, a file where a directory is needed,
  a directory where a file is needed, a directory that is not empty).
\<close>

type_synonym FileMode = "32 word"
type_synonym path = "string list"

datatype node = File FileMode string | Dir FileMode "(string \<times> node) list"

datatype error = ENOENT | ENOTDIR | EISDIR | EEXIST | ENOTEMPTY | EINVAL

definition ModeDir :: FileMode where
  "ModeDir = push_bit 31 1"

definition Perm :: "FileMode \<Rightarrow> FileMode" where
  "Perm m = m AND 0x1FF"

fun IsDir :: "node \<Rightarrow> bool" where
  "IsDir (Dir m es) = True"
| "IsDir (File m c) = False"

fun Mode :: "node \<Rightarrow> FileMode" where
  "Mode (Dir m es) = ModeDir OR m"
| "Mode (File m c) = m"

text \<open>\<^verbatim>\<open>filepath.Clean\<close>, component by component, and \<^verbatim>\<open>filepath.Join\<close> onto a clean path.\<close>

definition cleanStep :: "path \<Rightarrow> string \<Rightarrow> path" where
  "cleanStep acc c =
     (if c = [] \<or> c = ''.'' then acc
      else if c = ''..'' then (if acc \<noteq> [] \<and> last acc \<noteq> ''..'' then butlast acc else acc @ [c])
      else acc @ [c])"

definition filepath_Join :: "path \<Rightarrow> string \<Rightarrow> path" where
  "filepath_Join p s = foldl cleanStep p (Split s ''/'')"

definition Clean :: "string \<Rightarrow> path" where
  "Clean s = filepath_Join [] s"

text \<open>The path as the string that \<^verbatim>\<open>filepath.Walk\<close> hands to its callback.\<close>

definition pathString :: "path \<Rightarrow> string" where
  "pathString p = Join p ''/''"

function lookup :: "node \<Rightarrow> path \<Rightarrow> node option" where
  "lookup n [] = Some n"
| "lookup (File m c) (x # p) = None"
| "lookup (Dir m es) (x # p) = (case map_of es x of None \<Rightarrow> None | Some ch \<Rightarrow> lookup ch p)"
  by pat_completeness auto
termination
  by (relation "measure (\<lambda>(n, p). length p)") auto

text \<open>
  Every operation that changes the tree changes one entry of one directory: \<open>alter f fs p\<close>
  walks to the directory that holds the last component of \<open>p\<close> and lets \<open>f\<close> decide, from
  the entry that is there, what is there afterwards.
\<close>

function alter :: "(node option \<Rightarrow> error + node option) \<Rightarrow> node \<Rightarrow> path \<Rightarrow> error + node" where
  "alter f n [] = (case f (Some n) of Inl e \<Rightarrow> Inl e | Inr r \<Rightarrow> Inl EINVAL)"
| "alter f (File m c) (x # p) = Inl ENOTDIR"
| "alter f (Dir m es) [x] =
     (case f (map_of es x) of
        Inl e \<Rightarrow> Inl e
      | Inr None \<Rightarrow> Inr (Dir m (AList.delete x es))
      | Inr (Some n') \<Rightarrow> Inr (Dir m (AList.update x n' es)))"
| "alter f (Dir m es) (x # y # p) =
     (case map_of es x of
        None \<Rightarrow> Inl ENOENT
      | Some ch \<Rightarrow>
          (case alter f ch (y # p) of
             Inl e \<Rightarrow> Inl e
           | Inr ch' \<Rightarrow> Inr (Dir m (AList.update x ch' es))))"
  by pat_completeness auto
termination
  by (relation "measure (\<lambda>(f, n, p). length p)") auto

definition Mkdir :: "FileMode \<Rightarrow> node \<Rightarrow> path \<Rightarrow> FileMode \<Rightarrow> error + node" where
  "Mkdir umask fs p perm =
     alter (\<lambda>old. case old of
              Some n \<Rightarrow> Inl EEXIST
            | None \<Rightarrow> Inr (Some (Dir (Perm perm AND NOT umask) []))) fs p"

function MkdirAll :: "FileMode \<Rightarrow> node \<Rightarrow> path \<Rightarrow> FileMode \<Rightarrow> error + node" where
  "MkdirAll umask fs p perm =
     (case lookup fs p of
        Some (Dir m es) \<Rightarrow> Inr fs
      | Some (File m c) \<Rightarrow> Inl ENOTDIR
      | None \<Rightarrow>
          (case (if p = [] then Inr fs else MkdirAll umask fs (butlast p) perm) of
             Inl e \<Rightarrow> Inl e
           | Inr fs' \<Rightarrow> Mkdir umask fs' p perm))"
  by pat_completeness auto
termination
  by (relation "measure (\<lambda>(umask, fs, p, perm). length p)") auto

declare MkdirAll.simps [simp del]

definition ReadFile :: "node \<Rightarrow> path \<Rightarrow> error + string" where
  "ReadFile fs p =
     (case lookup fs p of
        None \<Rightarrow> Inl ENOENT
      | Some (Dir m es) \<Rightarrow> Inl EISDIR
      | Some (File m c) \<Rightarrow> Inr c)"

text \<open>
  \<^verbatim>\<open>os.WriteFile\<close> opens with \<^verbatim>\<open>O_WRONLY|O_CREATE|O_TRUNC\<close>: a file that exists keeps its
  mode and gets the new content, a new file is created with \<^verbatim>\<open>perm\<close> less the umask.
\<close>

definition WriteFile :: "FileMode \<Rightarrow> node \<Rightarrow> path \<Rightarrow> string \<Rightarrow> FileMode \<Rightarrow> error + node" where
  "WriteFile umask fs p data perm =
     alter (\<lambda>old. case old of
              Some (Dir m es) \<Rightarrow> Inl EISDIR
            | Some (File m c) \<Rightarrow> Inr (Some (File m data))
            | None \<Rightarrow> Inr (Some (File (Perm perm AND NOT umask) data))) fs p"

definition Remove :: "node \<Rightarrow> path \<Rightarrow> error + node" where
  "Remove fs p =
     alter (\<lambda>old. case old of
              None \<Rightarrow> Inl ENOENT
            | Some (File m c) \<Rightarrow> Inr None
            | Some (Dir m es) \<Rightarrow> (if es = [] then Inr None else Inl ENOTEMPTY)) fs p"

definition RemoveAll :: "node \<Rightarrow> path \<Rightarrow> error + node" where
  "RemoveAll fs p =
     (case alter (\<lambda>old. Inr None) fs p of
        Inl ENOENT \<Rightarrow> Inr fs
      | r \<Rightarrow> r)"

text \<open>
  \<^verbatim>\<open>filepath.Walk\<close> over the tree \<open>n\<close> found at \<open>p\<close>: the callback sees a directory before
  its entries, the entries in the order of their names, and the first error ends the walk.
  The walk follows the tree as it was when the walk began; no callback of the program adds or
  removes an entry of the tree it walks.
\<close>

function walk :: "(path \<Rightarrow> node \<Rightarrow> 's \<Rightarrow> error + 's) \<Rightarrow> path \<Rightarrow> node \<Rightarrow> 's \<Rightarrow> error + 's"
  and walkDir :: "(path \<Rightarrow> node \<Rightarrow> 's \<Rightarrow> error + 's) \<Rightarrow> path \<Rightarrow> (string \<times> node) list \<Rightarrow> 's \<Rightarrow> error + 's" where
  "walk fn p (File m c) st = fn p (File m c) st"
| "walk fn p (Dir m es) st =
     (case fn p (Dir m es) st of
        Inl e \<Rightarrow> Inl e
      | Inr st' \<Rightarrow> walkDir fn p (sort_key fst es) st')"
| "walkDir fn p [] st = Inr st"
| "walkDir fn p ((name, ch) # es) st =
     (case walk fn (p @ [name]) ch st of
        Inl e \<Rightarrow> Inl e
      | Inr st' \<Rightarrow> walkDir fn p es st')"
  by pat_completeness auto
termination
proof (relation "measure (\<lambda>x. case x of
          Inl (fn, p, n, st) \<Rightarrow> 2 * size n
        | Inr (fn, p, es, st) \<Rightarrow> 2 * size_list (size_prod (\<lambda>x. 0) size) es + 1)",
       goal_cases)
  case 1
  show ?case by simp
next
  case (2 fn p m es st x2)
  have "sum_mset (image_mset f (mset (sort_key fst es))) = sum_mset (image_mset f (mset es))"
    for f :: "string \<times> node \<Rightarrow> nat"
    by simp
  then have "sum_list (map f (sort_key fst es)) = sum_list (map f es)"
    for f :: "string \<times> node \<Rightarrow> nat"
    by (metis mset_map sum_mset_sum_list)
  then show ?case
    by (simp add: size_list_conv_sum_list)
next
  case 3
  show ?case by simp
next
  case 4
  show ?case by simp
qed

section \<open>Creating the project\<close>

text \<open>
  The template is the tree found under \<^verbatim>\<open>template\<close>, kept apart from the tree the project is
  written to; \<open>None\<close> stands for a missing \<^verbatim>\<open>template\<close>. The errors are not wrapped in the
  messages of \<^verbatim>\<open>createProject\<close>.
\<close>

text \<open>\<^verbatim>\<open>os.Create\<close> is \<^verbatim>\<open>OpenFile(name, O_RDWR|O_CREATE|O_TRUNC, 0666)\<close>.\<close>

definition copyFile :: "FileMode \<Rightarrow> node option \<Rightarrow> path \<Rightarrow> node \<Rightarrow> error + node" where
  "copyFile umask src dst fs =
     (case src of
        None \<Rightarrow> Inl ENOENT
      | Some (File m c) \<Rightarrow> WriteFile umask fs dst c 0x1B6
      | Some (Dir m es) \<Rightarrow>
          (case WriteFile umask fs dst [] 0x1B6 of Inl e \<Rightarrow> Inl e | Inr fs' \<Rightarrow> Inl EISDIR))"

definition copyTemplate_fn :: "FileMode \<Rightarrow> ProjectConfig \<Rightarrow> path \<Rightarrow> node \<Rightarrow> node \<Rightarrow> error + node" where
  "copyTemplate_fn umask config p info fs =
     (if p = [''template''] then Inr fs
      else
        (let relPath = drop 1 p;
             destPath = Clean (ProjectPath config) @ relPath
         in if IsDir info then MkdirAll umask fs destPath (Mode info)
            else copyFile umask (Some info) destPath fs))"

definition copyTemplate :: "FileMode \<Rightarrow> node option \<Rightarrow> ProjectConfig \<Rightarrow> node \<Rightarrow> error + node" where
  "copyTemplate umask template config fs =
     (case template of
        None \<Rightarrow> Inl ENOENT
      | Some t \<Rightarrow>
          (case walk (copyTemplate_fn umask config) [''template''] t fs of
             Inl e \<Rightarrow> Inl e
           | Inr fs' \<Rightarrow>
               (case lookup t [''.gitignore''] of
                  Some g \<Rightarrow>
                    copyFile umask (Some g) (filepath_Join (Clean (ProjectPath config)) ''.gitignore'') fs'
                | None \<Rightarrow> Inr fs')))"

definition goModContent :: "ProjectConfig \<Rightarrow> string" where
  \<open>goModContent config =
      ''module '' @ ModulePath config @
      ''\<newline>'' @
      ''\<newline>'' @
      ''go 1.24.1\<newline>'' @
      ''\<newline>'' @
      ''require (\<newline>'' @
      CHR 0x09 # ''github.com/DATA-DOG/go-sqlmock v1.5.0\<newline>'' @
      CHR 0x09 # ''github.com/bxcodec/faker v2.0.1+incompatible\<newline>'' @
      CHR 0x09 # ''github.com/go-co-op/gocron/v2 v2.11.0\<newline>'' @
      CHR 0x09 # ''github.com/go-playground/locales v0.14.1\<newline>'' @
      CHR 0x09 # ''github.com/go-playground/universal-translator v0.18.1\<newline>'' @
      CHR 0x09 # ''github.com/go-playground/validator/v10 v10.14.1\<newline>'' @
      CHR 0x09 # ''github.com/gofiber/fiber/v2 v2.52.5\<newline>'' @
      CHR 0x09 # ''github.com/gofiber/swagger v1.1.0\<newline>'' @
      CHR 0x09 # ''github.com/golang-jwt/jwt/v4 v4.5.2\<newline>'' @
      CHR 0x09 # ''github.com/google/uuid v1.6.0\<newline>'' @
      CHR 0x09 # ''github.com/joeshaw/envdecode v0.0.0-20200121155833-099f1fc765bd\<newline>'' @
      CHR 0x09 # ''github.com/pkg/errors v0.9.1\<newline>'' @
      CHR 0x09 # ''github.com/rabbitmq/amqp091-go v1.8.1\<newline>'' @
      CHR 0x09 # ''github.com/redis/go-redis/v9 v9.3.0\<newline>'' @
      CHR 0x09 # ''github.com/stretchr/testify v1.9.0\<newline>'' @
      CHR 0x09 # ''github.com/subosito/gotenv v1.4.2\<newline>'' @
      CHR 0x09 # ''github.com/swaggo/swag v1.16.3\<newline>'' @
      CHR 0x09 # ''github.com/valyala/fasthttp v1.51.0\<newline>'' @
      CHR 0x09 # ''go.mongodb.org/mongo-driver v1.11.7\<newline>'' @
      CHR 0x09 # ''go.uber.org/zap v1.27.0\<newline>'' @
      CHR 0x09 # ''golang.org/x/crypto v0.36.0\<newline>'' @
      CHR 0x09 # ''gorm.io/driver/mysql v1.5.1\<newline>'' @
      CHR 0x09 # ''gorm.io/driver/postgres v1.5.9\<newline>'' @
      CHR 0x09 # ''gorm.io/gorm v1.25.10\<newline>'' @
      '')\<newline>''\<close>

definition createGoMod :: "FileMode \<Rightarrow> ProjectConfig \<Rightarrow> node \<Rightarrow> error + node" where
  "createGoMod umask config fs =
     WriteFile umask fs (filepath_Join (Clean (ProjectPath config)) ''go.mod'') (goModContent config) 0x1A4"

definition oldModule :: string where
  "oldModule = ''github.com/rahmatrdn/go-skeleton''"

definition updateModulePaths_fn :: "FileMode \<Rightarrow> ProjectConfig \<Rightarrow> path \<Rightarrow> node \<Rightarrow> node \<Rightarrow> error + node" where
  "updateModulePaths_fn umask config p info fs =
     (if IsDir info then Inr fs
      else if \<not> HasSuffix (pathString p) ''.go'' \<and> \<not> HasSuffix (pathString p) ''.mod'' then Inr fs
      else
        (case ReadFile fs p of
           Inl e \<Rightarrow> Inl e
         | Inr content \<Rightarrow>
             (let newContent = ReplaceAll content oldModule (ModulePath config)
              in WriteFile umask fs p newContent (Mode info))))"

text \<open>
  \<^verbatim>\<open>filepath.Walk\<close> and \<^verbatim>\<open>os.MkdirAll\<close> are handed the project path as it was typed,
  not cleaned: the empty path names no file.
\<close>

definition updateModulePaths :: "FileMode \<Rightarrow> ProjectConfig \<Rightarrow> node \<Rightarrow> error + node" where
  "updateModulePaths umask config fs =
     (if ProjectPath config = [] then Inl ENOENT
      else
        (case lookup fs (Clean (ProjectPath config)) of
           None \<Rightarrow> Inl ENOENT
         | Some n \<Rightarrow> walk (updateModulePaths_fn umask config) (Clean (ProjectPath config)) n fs))"

text \<open>
  \<^verbatim>\<open>cleanupFiles\<close> ranges over two Go maps, whose order of iteration is not fixed: the model
  takes the order of the keys of each as an argument. The result of \<^verbatim>\<open>os.Remove\<close> and
  \<^verbatim>\<open>os.RemoveAll\<close> is dropped, so a removal that fails leaves the tree as it was.
\<close>

definition ignoreErr :: "node \<Rightarrow> error + node \<Rightarrow> node" where
  "ignoreErr fs r = (case r of Inl e \<Rightarrow> fs | Inr fs' \<Rightarrow> fs')"

definition dbConfigs :: "ProjectConfig \<Rightarrow> string \<Rightarrow> path option" where
  "dbConfigs config =
     [''mysql'' \<mapsto> filepath_Join (Clean (ProjectPath config)) ''config/mysql.go'',
      ''postgresql'' \<mapsto> filepath_Join (Clean (ProjectPath config)) ''config/postgre.go'',
      ''mongodb'' \<mapsto> filepath_Join (Clean (ProjectPath config)) ''config/mongodb.go'']"

definition dbRepos :: "ProjectConfig \<Rightarrow> string \<Rightarrow> path option" where
  "dbRepos config =
     [''mysql'' \<mapsto> filepath_Join (Clean (ProjectPath config)) ''internal/repository/mysql'',
      ''postgresql'' \<mapsto> filepath_Join (Clean (ProjectPath config)) ''internal/repository/mysql'',
      ''mongodb'' \<mapsto> filepath_Join (Clean (ProjectPath config)) ''internal/repository/mongodb'']"

fun cleanupConfigs :: "ProjectConfig \<Rightarrow> string list \<Rightarrow> node \<Rightarrow> node" where
  "cleanupConfigs config [] fs = fs"
| "cleanupConfigs config (db # dbs) fs =
     (case dbConfigs config db of
        None \<Rightarrow> cleanupConfigs config dbs fs
      | Some configFile \<Rightarrow>
          (if db \<noteq> Database config
           then
             (let fs1 = ignoreErr fs (Remove fs configFile);
                  fs2 = (if db = ''mysql'' \<or> db = ''postgresql''
                         then ignoreErr fs1
                                (Remove fs1 (filepath_Join (Clean (ProjectPath config)) ''config/gorm.go''))
                         else fs1)
              in cleanupConfigs config dbs fs2)
           else cleanupConfigs config dbs fs))"

fun cleanupRepos :: "ProjectConfig \<Rightarrow> string list \<Rightarrow> node \<Rightarrow> node" where
  "cleanupRepos config [] fs = fs"
| "cleanupRepos config (db # dbs) fs =
     (case dbRepos config db of
        None \<Rightarrow> cleanupRepos config dbs fs
      | Some repoDir \<Rightarrow>
          (if db \<noteq> Database config
           then
             (if Database config = ''postgresql'' \<and> db = ''mysql'' then cleanupRepos config dbs fs
              else if Database config = ''mysql'' \<and> db = ''postgresql'' then cleanupRepos config dbs fs
              else cleanupRepos config dbs (ignoreErr fs (RemoveAll fs repoDir)))
           else cleanupRepos config dbs fs))"

definition cleanupFiles :: "string list \<Rightarrow> string list \<Rightarrow> ProjectConfig \<Rightarrow> node \<Rightarrow> error + node" where
  "cleanupFiles order1 order2 config fs =
     (let fs1 = cleanupConfigs config order1 fs;
          fs2 = cleanupRepos config order2 fs1;
          fs3 = (if \<not> UseRedis config
                 then ignoreErr fs2
                        (Remove fs2 (filepath_Join (Clean (ProjectPath config)) ''config/redis.go''))
                 else fs2);
          fs4 = (if \<not> UseRabbitMQ config
                 then ignoreErr fs3
                        (Remove fs3 (filepath_Join (Clean (ProjectPath config)) ''config/rabbitmq.go''))
                 else fs3)
      in Inr fs4)"

definition sanitizeName :: "(string \<Rightarrow> string) \<Rightarrow> string \<Rightarrow> string" where
  "sanitizeName mapLower name = ReplaceAll (ToLower mapLower name) ''-'' ''_''"

definition dependsOnYaml :: "string list \<Rightarrow> string" where
  \<open>dependsOnYaml dependsOn = concat (map (\<lambda>dep. ''      - '' @ dep @ ''\<newline>'') dependsOn)\<close>

definition generateDevcontainerDockerCompose :: "(string \<Rightarrow> string) \<Rightarrow> ProjectConfig \<Rightarrow> string" where
  \<open>generateDevcontainerDockerCompose mapLower config =
     (let dependsOn = [''db''] @ (if UseRedis config then [''redis''] else [])
                               @ (if UseRabbitMQ config then [''rabbitmq''] else []);
          services =
            ''services:\<newline>'' @
            ''  app:\<newline>'' @
            ''    build:\<newline>'' @
            ''      context: .\<newline>'' @
            ''      dockerfile: Dockerfile\<newline>'' @
            ''    volumes:\<newline>'' @
            ''      - ..:/workspace:cached\<newline>'' @
            ''    command: sleep infinity\<newline>'' @
            ''    network_mode: service:db\<newline>'' @
            ''    depends_on:\<newline>'' @ dependsOnYaml dependsOn @
            ''\<newline>'';
          services = services @
            (if Database config = ''mysql'' then
            ''\<newline>'' @
            ''  db:\<newline>'' @
            ''    image: mysql:8.0\<newline>'' @
            ''    restart: unless-stopped\<newline>'' @
            ''    environment:\<newline>'' @
            ''      MYSQL_ROOT_PASSWORD: root\<newline>'' @
            ''      MYSQL_DATABASE: '' @ sanitizeName mapLower (ProjectName config) @
            ''\<newline>'' @
            ''      MYSQL_USER: '' @ sanitizeName mapLower (ProjectName config) @
            ''\<newline>'' @
            ''      MYSQL_PASSWORD: '' @ sanitizeName mapLower (ProjectName config) @
            ''\<newline>'' @
            ''    volumes:\<newline>'' @
            ''      - mysql-data:/var/lib/mysql\<newline>'' @
            ''    ports:\<newline>'' @
            ''      - "3306:3306"\<newline>''
             else if Database config = ''postgresql'' then
            ''\<newline>'' @
            ''  db:\<newline>'' @
            ''    image: postgres:15-alpine\<newline>'' @
            ''    restart: unless-stopped\<newline>'' @
            ''    environment:\<newline>'' @
            ''      POSTGRES_USER: postgres\<newline>'' @
            ''      POSTGRES_PASSWORD: postgres\<newline>'' @
            ''      POSTGRES_DB: '' @ sanitizeName mapLower (ProjectName config) @
            ''\<newline>'' @
            ''    volumes:\<newline>'' @
            ''      - postgres-data:/var/lib/postgresql/data\<newline>'' @
            ''    ports:\<newline>'' @
            ''      - "5432:5432"\<newline>''
             else if Database config = ''mongodb'' then
            ''\<newline>'' @
            ''  db:\<newline>'' @
            ''    image: mongo:6\<newline>'' @
            ''    restart: unless-stopped\<newline>'' @
            ''    environment:\<newline>'' @
            ''      MONGO_INITDB_DATABASE: '' @ sanitizeName mapLower (ProjectName config) @
            ''\<newline>'' @
            ''    volumes:\<newline>'' @
            ''      - mongodb-data:/data/db\<newline>'' @
            ''    ports:\<newline>'' @
            ''      - "27017:27017"\<newline>''
             else []);
          services = services @
            (if UseRedis config then
            ''\<newline>'' @
            ''  redis:\<newline>'' @
            ''    image: redis:7-alpine\<newline>'' @
            ''    restart: unless-stopped\<newline>'' @
            ''    command: redis-server --requirepass ""\<newline>'' @
            ''    volumes:\<newline>'' @
            ''      - redis-data:/data\<newline>'' @
            ''    ports:\<newline>'' @
            ''      - "6379:6379"\<newline>''
             else []);
          services = services @
            (if UseRabbitMQ config then
            ''\<newline>'' @
            ''  rabbitmq:\<newline>'' @
            ''    image: rabbitmq:3-management-alpine\<newline>'' @
            ''    restart: unless-stopped\<newline>'' @
            ''    environment:\<newline>'' @
            ''      RABBITMQ_DEFAULT_USER: guest\<newline>'' @
            ''      RABBITMQ_DEFAULT_PASS: guest\<newline>'' @
            ''    volumes:\<newline>'' @
            ''      - rabbitmq-data:/var/lib/rabbitmq\<newline>'' @
            ''    ports:\<newline>'' @
            ''      - "5672:5672"\<newline>'' @
            ''      - "15672:15672"\<newline>''
             else []);
          services = services @
            ''\<newline>'' @
            ''volumes:\<newline>'';
          services = services @
            (if Database config = ''mysql'' then
            ''  mysql-data:\<newline>''
             else if Database config = ''postgresql'' then
            ''  postgres-data:\<newline>''
             else if Database config = ''mongodb'' then
            ''  mongodb-data:\<newline>''
             else []);
          services = services @
            (if UseRedis config then
            ''  redis-data:\<newline>''
             else []);
          services = services @
            (if UseRabbitMQ config then
            ''  rabbitmq-data:\<newline>''
             else [])
      in services)\<close>

definition generateDevcontainer ::
  "(string \<Rightarrow> string) \<Rightarrow> FileMode \<Rightarrow> ProjectConfig \<Rightarrow> node \<Rightarrow> error + node" where
  "generateDevcontainer mapLower umask config fs =
     (let devcontainerPath = filepath_Join (Clean (ProjectPath config)) ''.devcontainer'';
          dockerCompose = generateDevcontainerDockerCompose mapLower config;
          dockerComposePath = filepath_Join devcontainerPath ''docker-compose.yml''
      in WriteFile umask fs dockerComposePath dockerCompose 0x1A4)"

definition removeLines :: "string \<Rightarrow> string \<Rightarrow> string" where
  \<open>removeLines content pattern =
     Join (filter (\<lambda>line. \<not> Contains line pattern) (Split content ''\<newline>'')) ''\<newline>''\<close>

definition updateConfigFiles :: "FileMode \<Rightarrow> ProjectConfig \<Rightarrow> node \<Rightarrow> error + node" where
  "updateConfigFiles umask config fs =
     (let configPath = filepath_Join (Clean (ProjectPath config)) ''config/config.go''
      in case ReadFile fs configPath of
           Inl e \<Rightarrow> Inl e
         | Inr content \<Rightarrow>
             (let configStr = content;
                  configStr = (if Database config \<noteq> ''mysql''
                               then removeLines configStr ''MysqlOption'' else configStr);
                  configStr = (if Database config \<noteq> ''postgresql''
                               then removeLines configStr ''PostgreSqlOption'' else configStr);
                  configStr = (if Database config \<noteq> ''mongodb''
                               then removeLines configStr ''MongodbOption'' else configStr);
                  configStr = (if \<not> UseRedis config
                               then removeLines configStr ''RedisOption'' else configStr);
                  configStr = (if \<not> UseRabbitMQ config
                               then removeLines configStr ''RabbitMQOption'' else configStr)
              in WriteFile umask fs configPath configStr 0x1A4))"

definition updateEnvFiles ::
  "(string \<Rightarrow> string) \<Rightarrow> FileMode \<Rightarrow> ProjectConfig \<Rightarrow> node \<Rightarrow> error + node" where
  "updateEnvFiles mapLower umask config fs =
     (let envDevcontainerPath =
            filepath_Join (Clean (ProjectPath config)) ''.devcontainer/.env.devcontainer''
      in case ReadFile fs envDevcontainerPath of
           Inl e \<Rightarrow> Inl e
         | Inr content \<Rightarrow>
             (let dbName = sanitizeName mapLower (ProjectName config);
                  envContent = ReplaceAll content ''PROJECT_DB_NAME'' dbName
              in WriteFile umask fs envDevcontainerPath envContent 0x1A4))"

definition andThen :: "error + node \<Rightarrow> (node \<Rightarrow> error + node) \<Rightarrow> error + node" where
  "andThen r k = (case r of Inl e \<Rightarrow> Inl e | Inr fs \<Rightarrow> k fs)"

definition createProject ::
  "(string \<Rightarrow> string) \<Rightarrow> FileMode \<Rightarrow> node option \<Rightarrow> string list \<Rightarrow> string list \<Rightarrow>
   ProjectConfig \<Rightarrow> node \<Rightarrow> error + node" where
  "createProject mapLower umask template order1 order2 config fs =
     andThen (if ProjectPath config = [] then Inl ENOENT
              else MkdirAll umask fs (Clean (ProjectPath config)) 0x1ED) (\<lambda>fs.
     andThen (copyTemplate umask template config fs) (\<lambda>fs.
     andThen (createGoMod umask config fs) (\<lambda>fs.
     andThen (updateModulePaths umask config fs) (\<lambda>fs.
     andThen (cleanupFiles order1 order2 config fs) (\<lambda>fs.
     andThen (generateDevcontainer mapLower umask config fs) (\<lambda>fs.
     andThen (updateConfigFiles umask config fs) (\<lambda>fs.
     updateEnvFiles mapLower umask config fs)))))))"

text \<open>
  A run of \<^verbatim>\<open>main\<close> on the standard input \<open>stdin\<close>. \<^verbatim>\<open>collectConfiguration\<close> reads it
  through a reader of its own; what that reader has taken into its buffer and not returned
  is lost when it is done, and \<^verbatim>\<open>confirm\<close> reads on from what the file still holds. The
  result is the exit status and the file system; \<open>None\<close> is a run that never gets out of a
  prompt. The tree that a failed \<^verbatim>\<open>createProject\<close> leaves behind is not followed.
\<close>

datatype outcome = Exit0 node | Exit1 error

definition main ::
  "(string \<Rightarrow> string) \<Rightarrow> FileMode \<Rightarrow> node option \<Rightarrow> string list \<Rightarrow> string list \<Rightarrow>
   Stdin \<Rightarrow> node \<Rightarrow> outcome option" where
  "main mapLower umask template order1 order2 stdin fs =
     (case collectConfiguration mapLower (NewReader stdin) of
        None \<Rightarrow> None
      | Some (config, (buf, stdin')) \<Rightarrow>
          (if \<not> confirm mapLower stdin' ''Create project?'' then Some (Exit0 fs)
           else
             (case createProject mapLower umask template order1 order2 config fs of
                Inl e \<Rightarrow> Some (Exit1 e)
              | Inr fs' \<Rightarrow> Some (Exit0 fs'))))"

section \<open>Reading the compose document\<close>






section \<open>Properties of the string functions\<close>

lemma char_eq_nat: "c = d \<longleftrightarrow> (of_char c :: nat) = of_char d"
  by simp

lemma of_char_lowerByte:
  "(of_char (lowerByte c) :: nat) =
     (if 65 \<le> (of_char c :: nat) \<and> (of_char c :: nat) \<le> 90 then of_char c + 32 else of_char c)"
  by (simp add: lowerByte_def less_eq_char_def)

lemma lowerByte_y: "lowerByte c = CHR ''y'' \<longleftrightarrow> c = CHR ''y'' \<or> c = CHR ''Y''"
  unfolding char_eq_nat [of _ "CHR ''y''"] char_eq_nat [of _ "CHR ''Y''"] of_char_lowerByte
  by auto

lemma lowerByte_e: "lowerByte c = CHR ''e'' \<longleftrightarrow> c = CHR ''e'' \<or> c = CHR ''E''"
  unfolding char_eq_nat [of _ "CHR ''e''"] char_eq_nat [of _ "CHR ''E''"] of_char_lowerByte
  by auto

lemma lowerByte_s: "lowerByte c = CHR ''s'' \<longleftrightarrow> c = CHR ''s'' \<or> c = CHR ''S''"
  unfolding char_eq_nat [of _ "CHR ''s''"] char_eq_nat [of _ "CHR ''S''"] of_char_lowerByte
  by auto

text \<open>Lowering a byte neither makes nor removes a byte that is no letter.\<close>

lemma lowerByte_eq_iff:
  "\<not> (65 \<le> (of_char b :: nat) \<and> (of_char b :: nat) \<le> 90) \<Longrightarrow>
   \<not> (97 \<le> (of_char b :: nat) \<and> (of_char b :: nat) \<le> 122) \<Longrightarrow>
   lowerByte c = b \<longleftrightarrow> c = b"
  unfolding char_eq_nat [of _ b] of_char_lowerByte
  by auto

lemma spaceSeqs_no_letter:
  "q \<in> set spaceSeqs \<Longrightarrow> b \<in> set q \<Longrightarrow>
   \<not> (65 \<le> (of_char b :: nat) \<and> (of_char b :: nat) \<le> 90)
   \<and> \<not> (97 \<le> (of_char b :: nat) \<and> (of_char b :: nat) \<le> 122)"
  by (auto simp: spaceSeqs_def)

lemma map_lowerByte_eq_iff:
  "(\<And>b. b \<in> set q \<Longrightarrow> \<not> (65 \<le> (of_char b :: nat) \<and> (of_char b :: nat) \<le> 90)
      \<and> \<not> (97 \<le> (of_char b :: nat) \<and> (of_char b :: nat) \<le> 122)) \<Longrightarrow>
   map lowerByte t = q \<longleftrightarrow> t = q"
proof (induction q arbitrary: t)
  case Nil
  show ?case by simp
next
  case (Cons b q)
  have "lowerByte c = b \<longleftrightarrow> c = b" for c
    using Cons.prems [of b] by (simp add: lowerByte_eq_iff)
  moreover have "map lowerByte u = q \<longleftrightarrow> u = q" for u
    using Cons.IH [of u] Cons.prems by simp
  ultimately show ?case
    by (cases t) auto
qed

lemma map_lowerByte_spaceSeq:
  "q \<in> set spaceSeqs \<Longrightarrow> map lowerByte t = q \<longleftrightarrow> t = q"
  by (rule map_lowerByte_eq_iff) (rule spaceSeqs_no_letter)

lemma HasPrefix_lower: "q \<in> set spaceSeqs \<Longrightarrow> HasPrefix (map lowerByte s) q = HasPrefix s q"
  by (simp add: HasPrefix_def take_map map_lowerByte_spaceSeq)

lemma HasSuffix_lower: "q \<in> set spaceSeqs \<Longrightarrow> HasSuffix (map lowerByte s) q = HasSuffix s q"
  by (simp add: HasSuffix_def drop_map map_lowerByte_spaceSeq)

lemma find_HasPrefix_lower:
  "find (HasPrefix (map lowerByte s)) spaceSeqs = find (HasPrefix s) spaceSeqs"
  by (rule find_cong) (simp_all add: HasPrefix_lower)

lemma find_HasSuffix_lower:
  "find (HasSuffix (map lowerByte s)) spaceSeqs = find (HasSuffix s) spaceSeqs"
  by (rule find_cong) (simp_all add: HasSuffix_lower)

lemma trimLeft_lower: "trimLeft (map lowerByte s) = map lowerByte (trimLeft s)"
proof (induction s rule: trimLeft.induct)
  case (1 s)
  show ?case
  proof (cases "find (HasPrefix s) spaceSeqs")
    case None
    then show ?thesis
      by (simp add: trimLeft.simps [of s] trimLeft.simps [of "map lowerByte s"]
          find_HasPrefix_lower)
  next
    case (Some q)
    with "1.IH" [of q] show ?thesis
      by (simp add: trimLeft.simps [of s] trimLeft.simps [of "map lowerByte s"]
          find_HasPrefix_lower drop_map)
  qed
qed

lemma trimRight_lower: "trimRight (map lowerByte s) = map lowerByte (trimRight s)"
proof (induction s rule: trimRight.induct)
  case (1 s)
  show ?case
  proof (cases "find (HasSuffix s) spaceSeqs")
    case None
    then show ?thesis
      by (simp add: trimRight.simps [of s] trimRight.simps [of "map lowerByte s"]
          find_HasSuffix_lower)
  next
    case (Some q)
    with "1.IH" [of q] show ?thesis
      by (simp add: trimRight.simps [of s] trimRight.simps [of "map lowerByte s"]
          find_HasSuffix_lower take_map)
  qed
qed

text \<open>Lowering bytes and trimming commute.\<close>

lemma TrimSpace_lower: "TrimSpace (map lowerByte s) = map lowerByte (TrimSpace s)"
  by (simp add: TrimSpace_def trimLeft_lower trimRight_lower)

lemma set_trimLeft: "set (trimLeft s) \<subseteq> set s"
proof (induction s rule: trimLeft.induct)
  case (1 s)
  show ?case
  proof (cases "find (HasPrefix s) spaceSeqs")
    case None
    then show ?thesis
      by (simp add: trimLeft.simps [of s])
  next
    case (Some q)
    with "1.IH" [of q] set_drop_subset [of "length q" s] show ?thesis
      by (auto simp: trimLeft.simps [of s])
  qed
qed

lemma set_trimRight: "set (trimRight s) \<subseteq> set s"
proof (induction s rule: trimRight.induct)
  case (1 s)
  show ?case
  proof (cases "find (HasSuffix s) spaceSeqs")
    case None
    then show ?thesis
      by (simp add: trimRight.simps [of s])
  next
    case (Some q)
    with "1.IH" [of q] set_take_subset [of "length s - length q" s] show ?thesis
      by (auto simp: trimRight.simps [of s])
  qed
qed

lemma isASCII_TrimSpace: "isASCII s \<Longrightarrow> isASCII (TrimSpace s)"
  using set_trimLeft [of s] set_trimRight [of "trimLeft s"]
  by (auto simp: isASCII_def TrimSpace_def list_all_iff)

lemma TrimSpace_Nil: "TrimSpace [] = []"
  by (simp add: TrimSpace_def trimLeft.simps [of "[]"] trimRight.simps [of "[]"] spaceSeqs_def
      HasPrefix_def HasSuffix_def)

text \<open>
  Lowering and trimming commute: for a string of ASCII bytes always, and for the others
  when the mapping of the library neither makes nor removes white space at the ends.
\<close>

lemma TrimSpace_ToLower:
  assumes "isASCII s \<or> (\<forall>s. \<not> isASCII s \<longrightarrow> TrimSpace (mapLower s) = ToLower mapLower (TrimSpace s))"
  shows "TrimSpace (ToLower mapLower s) = ToLower mapLower (TrimSpace s)"
proof (cases "isASCII s")
  case True
  then show ?thesis
    by (simp add: ToLower_def TrimSpace_lower isASCII_TrimSpace)
next
  case False
  with assms show ?thesis
    by (simp add: ToLower_def)
qed

lemma lower_y_iff: "map lowerByte s = ''y'' \<longleftrightarrow> s \<in> {''y'', ''Y''}"
  by (auto simp: map_eq_Cons_conv lowerByte_y)

lemma lower_three:
  "map lowerByte s = [x, y, z] \<longleftrightarrow>
   (\<exists>a b c. s = [a, b, c] \<and> lowerByte a = x \<and> lowerByte b = y \<and> lowerByte c = z)"
  by (auto simp: map_eq_Cons_conv)

lemma yes_variants:
  "s = [a, b, c] \<Longrightarrow> a = CHR ''y'' \<or> a = CHR ''Y'' \<Longrightarrow> b = CHR ''e'' \<or> b = CHR ''E'' \<Longrightarrow>
   c = CHR ''s'' \<or> c = CHR ''S'' \<Longrightarrow>
   s \<in> {''yes'', ''yeS'', ''yEs'', ''yES'', ''Yes'', ''YeS'', ''YEs'', ''YES''}"
  by (elim disjE; simp)

lemma lowerByte_yes:
  "lowerByte CHR ''y'' = CHR ''y''" "lowerByte CHR ''Y'' = CHR ''y''"
  "lowerByte CHR ''e'' = CHR ''e''" "lowerByte CHR ''E'' = CHR ''e''"
  "lowerByte CHR ''s'' = CHR ''s''" "lowerByte CHR ''S'' = CHR ''s''"
  by (simp_all add: lowerByte_y lowerByte_e lowerByte_s)

lemma lower_yes_iff:
  "map lowerByte s = ''yes'' \<longleftrightarrow>
   s \<in> {''yes'', ''yeS'', ''yEs'', ''yES'', ''Yes'', ''YeS'', ''YEs'', ''YES''}"
proof
  assume "map lowerByte s = ''yes''"
  then have "\<exists>a b c. s = [a, b, c] \<and> lowerByte a = CHR ''y'' \<and> lowerByte b = CHR ''e''
      \<and> lowerByte c = CHR ''s''"
    by (simp only: lower_three)
  then obtain a b c where s: "s = [a, b, c]"
    and "lowerByte a = CHR ''y''" "lowerByte b = CHR ''e''" "lowerByte c = CHR ''s''"
    by (elim exE conjE)
  then have "a = CHR ''y'' \<or> a = CHR ''Y''" "b = CHR ''e'' \<or> b = CHR ''E''"
    "c = CHR ''s'' \<or> c = CHR ''S''"
    by (simp_all only: lowerByte_y lowerByte_e lowerByte_s)
  with s show "s \<in> {''yes'', ''yeS'', ''yEs'', ''yES'', ''Yes'', ''YeS'', ''YEs'', ''YES''}"
    by (rule yes_variants)
next
  assume "s \<in> {''yes'', ''yeS'', ''yEs'', ''yES'', ''Yes'', ''YeS'', ''YEs'', ''YES''}"
  then show "map lowerByte s = ''yes''"
    by (elim insertE emptyE) (simp_all only: list.map lowerByte_yes)
qed

lemma isASCII_variants:
  "s \<in> {''y'', ''Y'', ''yes'', ''yeS'', ''yEs'', ''yES'', ''Yes'', ''YeS'', ''YEs'', ''YES''} \<Longrightarrow>
   isASCII s"
  by (elim insertE emptyE) (simp_all add: isASCII_def less_char_def)

text \<open>
  The bytes are lowered one by one in a string of ASCII bytes; this mapping of the strings
  with other bytes has every property that is asked of the library's below.
\<close>

lemma lowerByte_high: "\<not> c < CHR 0x80 \<Longrightarrow> lowerByte c = c"
  by (auto simp: lowerByte_def less_char_def less_eq_char_def)

lemma isASCII_lower: "isASCII (map lowerByte s) = isASCII s"
proof -
  have "lowerByte c < CHR 0x80 \<longleftrightarrow> c < CHR 0x80" for c
    unfolding less_char_def of_char_lowerByte by auto
  then show ?thesis
    by (simp add: isASCII_def list_all_iff)
qed

lemma bytewise_trim:
  "TrimSpace (map lowerByte s) = ToLower (map lowerByte) (TrimSpace s)"
  by (simp add: ToLower_def TrimSpace_lower)

lemma bytewise_not_yes:
  assumes "\<not> isASCII s"
  shows "map lowerByte s \<noteq> ''y'' \<and> map lowerByte s \<noteq> ''yes''"
proof -
  from assms have "\<not> isASCII (map lowerByte s)"
    by (simp add: isASCII_lower)
  moreover have "isASCII ''y''" "isASCII ''yes''"
    by (simp_all add: isASCII_def less_char_def)
  ultimately show ?thesis
    by metis
qed

lemma HasPrefix_Nil [simp]: "HasPrefix s []"
  by (simp add: HasPrefix_def)

lemma HasPrefix_Cons_Cons [simp]: "HasPrefix (c # cs) (d # ds) \<longleftrightarrow> c = d \<and> HasPrefix cs ds"
  by (auto simp: HasPrefix_def)

lemma HasPrefix_Nil_Cons [simp]: "\<not> HasPrefix [] (d # ds)"
  by (simp add: HasPrefix_def)

lemma HasPrefix_decomp: "HasPrefix s p \<Longrightarrow> s = p @ drop (length p) s"
  by (metis HasPrefix_def append_take_drop_id)

lemma replaceFrom_single:
  "replaceFrom [a] [b] s = map (\<lambda>c. if c = a then b else c) s"
  by (induction s) simp_all

lemma replaceFrom_absent: "\<not> Contains s old \<Longrightarrow> replaceFrom old new s = s"
  by (induction old new s rule: replaceFrom.induct) auto

lemma length_replaceFrom_ge:
  "length old \<le> length new \<Longrightarrow> length s \<le> length (replaceFrom old new s)"
proof (induction old new s rule: replaceFrom.induct)
  case (1 old new)
  then show ?case by simp
next
  case (2 old new c cs)
  show ?case
  proof (cases "old \<noteq> [] \<and> HasPrefix (c # cs) old")
    case True
    then have "length (c # cs) = length old + length (drop (length old) (c # cs))"
      by (simp add: HasPrefix_def)
    with True 2 show ?thesis by simp
  next
    case False
    with 2 show ?thesis by auto
  qed
qed

lemma length_replaceFrom_le:
  "length new \<le> length old \<Longrightarrow> length (replaceFrom old new s) \<le> length s"
proof (induction old new s rule: replaceFrom.induct)
  case (1 old new)
  then show ?case by simp
next
  case (2 old new c cs)
  show ?case
  proof (cases "old \<noteq> [] \<and> HasPrefix (c # cs) old")
    case True
    then have "length (c # cs) = length old + length (drop (length old) (c # cs))"
      by (simp add: HasPrefix_def)
    with True 2 show ?thesis by simp
  next
    case False
    with 2 show ?thesis by auto
  qed
qed

text \<open>
  Where \<open>old\<close> occurs, replacing it by something else changes the text: the first
  occurrence is rewritten, and the lengths decide when \<open>new\<close> starts with \<open>old\<close>.
\<close>

lemma replaceFrom_present:
  "old \<noteq> new \<Longrightarrow> old \<noteq> [] \<Longrightarrow> Contains s old \<Longrightarrow> replaceFrom old new s \<noteq> s"
proof (induction old new s rule: replaceFrom.induct)
  case (1 old new)
  then show ?case by simp
next
  case (2 old new c cs)
  show ?case
  proof (cases "HasPrefix (c # cs) old")
    case True
    let ?rest = "drop (length old) (c # cs)"
    have s: "c # cs = old @ ?rest"
      using True by (rule HasPrefix_decomp)
    have r: "replaceFrom old new (c # cs) = new @ replaceFrom old new ?rest"
      using True 2 by simp
    show ?thesis
    proof
      assume eq: "replaceFrom old new (c # cs) = c # cs"
      then have e: "new @ replaceFrom old new ?rest = old @ ?rest"
        using r s by simp
      then have l: "length new + length (replaceFrom old new ?rest) = length old + length ?rest"
        by (metis length_append)
      consider "length new < length old" | "length new = length old" | "length old < length new"
        by linarith
      then show False
      proof cases
        case 1
        with length_replaceFrom_le [of new old ?rest] l show False by simp
      next
        case 2
        with e have "new = old" by simp
        with "2.prems" show False by simp
      next
        case 3
        with length_replaceFrom_ge [of old new ?rest] l show False by simp
      qed
    qed
  next
    case False
    with 2 show ?thesis by simp
  qed
qed

lemma ReplaceAll_twice_iff:
  "old \<noteq> [] \<Longrightarrow>
   ReplaceAll (ReplaceAll s old new) old new = ReplaceAll s old new
   \<longleftrightarrow> old = new \<or> \<not> Contains (ReplaceAll s old new) old"
  using replaceFrom_present [of old new "replaceFrom old new s"]
    replaceFrom_absent [of "replaceFrom old new s" old new]
  by (auto simp: ReplaceAll_def)

section \<open>The prompts\<close>

text \<open>
  Claim C7: for every input line, \<^verbatim>\<open>promptBool\<close> returns true exactly when the trimmed
  line is \<open>y\<close> or \<open>yes\<close> in any mix of upper and lower case, and false for every other
  line, the empty one included. For a line of ASCII bytes nothing is asked of the library.
  For a line with other bytes two facts about \<^verbatim>\<open>strings.Map(unicode.ToLower, s)\<close> are
  asked: lowering neither makes nor removes white space at the ends of a string, and a
  string with a byte above 127 is not lowered to \<open>y\<close> or \<open>yes\<close>.
\<close>

theorem promptBool_true_iff:
  assumes "isASCII (fst (ReadString reader CHR 0x0A))
    \<or> ((\<forall>s. \<not> isASCII s \<longrightarrow> TrimSpace (mapLower s) = ToLower mapLower (TrimSpace s))
       \<and> (\<forall>s. \<not> isASCII s \<longrightarrow> mapLower s \<noteq> ''y'' \<and> mapLower s \<noteq> ''yes''))"
  shows "fst (promptBool mapLower reader prompt) \<longleftrightarrow>
   TrimSpace (fst (ReadString reader CHR 0x0A))
     \<in> {''y'', ''Y'', ''yes'', ''yeS'', ''yEs'', ''yES'', ''Yes'', ''YeS'', ''YEs'', ''YES''}"
proof -
  obtain input reader' where rd: "ReadString reader CHR 0x0A = (input, reader')"
    by (cases "ReadString reader CHR 0x0A")
  let ?t = "TrimSpace input"
  from assms have "TrimSpace (ToLower mapLower input) = ToLower mapLower ?t"
    by (intro TrimSpace_ToLower) (auto simp: rd)
  then have b: "fst (promptBool mapLower reader prompt) \<longleftrightarrow>
        ToLower mapLower ?t = ''y'' \<or> ToLower mapLower ?t = ''yes''"
    by (simp add: promptBool_def rd Let_def)
  show ?thesis
  proof (cases "isASCII ?t")
    case True
    then have "ToLower mapLower ?t = map lowerByte ?t"
      by (simp add: ToLower_def)
    with b show ?thesis
      unfolding rd fst_conv by (simp only: lower_y_iff lower_yes_iff) blast
  next
    case False
    with assms have "\<not> isASCII input"
      using isASCII_TrimSpace [of input] by blast
    with assms have "mapLower ?t \<noteq> ''y'' \<and> mapLower ?t \<noteq> ''yes''"
      using False by (auto simp: rd)
    with False have "\<not> fst (promptBool mapLower reader prompt)"
      by (simp add: b ToLower_def)
    moreover from False isASCII_variants [of ?t] have "?t \<notin> {''y'', ''Y'', ''yes'', ''yeS'', ''yEs'', ''yES'', ''Yes'', ''YeS'', ''YEs'', ''YES''}"
      by blast
    ultimately show ?thesis
      unfolding rd fst_conv by blast
  qed
qed


lemma bytewise_promptBool:
  "(\<forall>s. \<not> isASCII s \<longrightarrow> TrimSpace (map lowerByte s) = ToLower (map lowerByte) (TrimSpace s))
   \<and> (\<forall>s. \<not> isASCII s \<longrightarrow> map lowerByte s \<noteq> ''y'' \<and> map lowerByte s \<noteq> ''yes'')"
  using bytewise_trim bytewise_not_yes by blast

lemma promptBool_lines:
  "TrimSpace (fst (ReadString (NewReader [[CHR 0xC2, CHR 0xA0] @ ''Yes'' @ [CHR 0x0D, CHR 0x0A] @ ''rest'']) CHR 0x0A)) = ''Yes''"
  "TrimSpace (fst (ReadString (NewReader [[CHR 0x0A]]) CHR 0x0A)) = []"
  "TrimSpace (fst (ReadString (NewReader []) CHR 0x0A)) = []"
  "TrimSpace (fst (ReadString (NewReader [''no'' @ [CHR 0x0A]]) CHR 0x0A)) = ''no''"
  "TrimSpace (fst (ReadString (NewReader [[CHR 0xC3, CHR 0x89, CHR 0x0A]]) CHR 0x0A)) = [CHR 0xC3, CHR 0x89]"
  by code_simp+

theorem promptBool_true_iff_witness:
  "fst (promptBool (map lowerByte)
          (NewReader [[CHR 0xC2, CHR 0xA0] @ ''Yes'' @ [CHR 0x0D, CHR 0x0A] @ ''rest''])
          ''Use Redis?'')
   \<and> \<not> fst (promptBool (map lowerByte) (NewReader [[CHR 0x0A]]) ''Use Redis?'')
   \<and> \<not> fst (promptBool (map lowerByte) (NewReader []) ''Use Redis?'')
   \<and> \<not> fst (promptBool (map lowerByte) (NewReader [''no'' @ [CHR 0x0A]]) ''Use Redis?'')
   \<and> \<not> fst (promptBool (map lowerByte) (NewReader [[CHR 0xC3, CHR 0x89, CHR 0x0A]]) ''Use Redis?'')"
  using promptBool_true_iff [where mapLower = "map lowerByte" and prompt = "''Use Redis?''"
      and reader = "NewReader [[CHR 0xC2, CHR 0xA0] @ ''Yes'' @ [CHR 0x0D, CHR 0x0A] @ ''rest'']",
      OF disjI2 [OF bytewise_promptBool]]
    promptBool_true_iff [where mapLower = "map lowerByte" and prompt = "''Use Redis?''"
      and reader = "NewReader [[CHR 0x0A]]", OF disjI2 [OF bytewise_promptBool]]
    promptBool_true_iff [where mapLower = "map lowerByte" and prompt = "''Use Redis?''"
      and reader = "NewReader []", OF disjI2 [OF bytewise_promptBool]]
    promptBool_true_iff [where mapLower = "map lowerByte" and prompt = "''Use Redis?''"
      and reader = "NewReader [''no'' @ [CHR 0x0A]]", OF disjI2 [OF bytewise_promptBool]]
    promptBool_true_iff [where mapLower = "map lowerByte" and prompt = "''Use Redis?''"
      and reader = "NewReader [[CHR 0xC3, CHR 0x89, CHR 0x0A]]", OF disjI2 [OF bytewise_promptBool]]
  unfolding promptBool_lines by simp

text \<open>
  Claim C9: the final confirmation takes the empty line, and so the end of the input, as a
  yes: \<^verbatim>\<open>confirm\<close> returns true exactly when the line, trimmed and put in lower case, is
  empty, \<open>y\<close> or \<open>yes\<close>. \<^verbatim>\<open>promptBool\<close> has the opposite default: on a line that is empty
  after trimming it returns false where \<^verbatim>\<open>confirm\<close> returns true. For a line of ASCII
  bytes nothing is asked of the library; for a line with other bytes, that
  \<^verbatim>\<open>strings.Map(unicode.ToLower, s)\<close> neither makes nor removes white space at the ends of
  a string.
\<close>

theorem confirm_true_iff:
  assumes "isASCII (fst (ReadString (NewReader stdin) CHR 0x0A))
    \<or> (\<forall>s. \<not> isASCII s \<longrightarrow> TrimSpace (mapLower s) = ToLower mapLower (TrimSpace s))"
  shows "(confirm mapLower stdin prompt \<longleftrightarrow>
      ToLower mapLower (TrimSpace (fst (ReadString (NewReader stdin) CHR 0x0A)))
        \<in> {[], ''y'', ''yes''})
   \<and> (TrimSpace (fst (ReadString (NewReader stdin) CHR 0x0A)) = [] \<longrightarrow>
        confirm mapLower stdin prompt \<and> \<not> fst (promptBool mapLower (NewReader stdin) prompt'))
   \<and> confirm mapLower [] prompt \<and> \<not> fst (promptBool mapLower (NewReader []) prompt')"
proof -
  obtain input reader' where rd: "ReadString (NewReader stdin) CHR 0x0A = (input, reader')"
    by (cases "ReadString (NewReader stdin) CHR 0x0A")
  let ?t = "TrimSpace input"
  from assms have t: "TrimSpace (ToLower mapLower input) = ToLower mapLower ?t"
    by (intro TrimSpace_ToLower) (auto simp: rd)
  have c: "confirm mapLower stdin prompt \<longleftrightarrow> ToLower mapLower ?t \<in> {[], ''y'', ''yes''}"
    by (auto simp: confirm_def rd t Let_def)
  have b: "fst (promptBool mapLower (NewReader stdin) prompt') \<longleftrightarrow>
      ToLower mapLower ?t \<in> {''y'', ''yes''}"
    by (auto simp: promptBool_def rd t Let_def)
  have n: "ToLower mapLower [] = []"
    by (simp add: ToLower_def isASCII_def)
  have "ReadString (NewReader []) CHR 0x0A = ([], ([], []))"
    by (simp add: NewReader_def ReadString.simps [of "[]" "[]"])
  then have e: "confirm mapLower [] prompt \<and> \<not> fst (promptBool mapLower (NewReader []) prompt')"
    by (simp add: confirm_def promptBool_def n TrimSpace_Nil)
  from c b e show ?thesis
    by (auto simp: rd n)
qed

lemma confirm_lines:
  "TrimSpace (fst (ReadString (NewReader [[CHR 0xC2, CHR 0xA0, CHR 0x0A], ''n'']) CHR 0x0A)) = []"
  "TrimSpace (fst (ReadString (NewReader [''n'' @ [CHR 0x0A]]) CHR 0x0A)) = ''n''"
  "TrimSpace (fst (ReadString (NewReader [''YES'' @ [CHR 0x0A]]) CHR 0x0A)) = ''YES''"
  by code_simp+

theorem confirm_true_iff_witness:
  "TrimSpace (fst (ReadString (NewReader [[CHR 0xC2, CHR 0xA0, CHR 0x0A], ''n'']) CHR 0x0A)) = []
   \<and> confirm (map lowerByte) [[CHR 0xC2, CHR 0xA0, CHR 0x0A], ''n''] ''Create project?''
   \<and> \<not> fst (promptBool (map lowerByte) (NewReader [[CHR 0xC2, CHR 0xA0, CHR 0x0A], ''n''])
              ''Use Redis?'')
   \<and> \<not> confirm (map lowerByte) [''n'' @ [CHR 0x0A]] ''Create project?''
   \<and> confirm (map lowerByte) [''YES'' @ [CHR 0x0A]] ''Create project?''"
  using confirm_true_iff [where mapLower = "map lowerByte" and prompt = "''Create project?''"
      and prompt' = "''Use Redis?''" and stdin = "[[CHR 0xC2, CHR 0xA0, CHR 0x0A], ''n'']",
      OF disjI2 [OF conjunct1 [OF bytewise_promptBool]]]
    confirm_true_iff [where mapLower = "map lowerByte" and prompt = "''Create project?''"
      and prompt' = "''Use Redis?''" and stdin = "[''n'' @ [CHR 0x0A]]",
      OF disjI2 [OF conjunct1 [OF bytewise_promptBool]]]
    confirm_true_iff [where mapLower = "map lowerByte" and prompt = "''Create project?''"
      and prompt' = "''Use Redis?''" and stdin = "[''YES'' @ [CHR 0x0A]]",
      OF disjI2 [OF conjunct1 [OF bytewise_promptBool]]]
  unfolding confirm_lines
  by (simp add: ToLower_def isASCII_def less_char_def lowerByte_y lowerByte_e lowerByte_s)

section \<open>Rewriting the module path\<close>

lemma goModContent_begins:
  "\<exists>rest. goModContent config = ''module '' @ ModulePath config @ CHR 0x0A # rest"
  by (simp add: goModContent_def)

lemma createGoMod_demo:
  "createGoMod 0x12 \<lparr>ProjectName = ''demo'', ProjectPath = ''./demo'',
        ModulePath = ''github.com/rahmatrdn/go-skeleton/v2'', Database = ''mysql'',
        UseRedis = False, UseRabbitMQ = False\<rparr> (Dir 0x1ED [(''demo'', Dir 0x1ED [])])
   = Inr (Dir 0x1ED [(''demo'', Dir 0x1ED [(''go.mod'', File 0x1A4 (goModContent \<lparr>ProjectName = ''demo'', ProjectPath = ''./demo'',
        ModulePath = ''github.com/rahmatrdn/go-skeleton/v2'', Database = ''mysql'',
        UseRedis = False, UseRabbitMQ = False\<rparr>))])])"
  by (simp add: createGoMod_def WriteFile_def Clean_def filepath_Join_def cleanStep_def Perm_def)

lemma updateModulePaths_demo:
  "updateModulePaths 0x12 \<lparr>ProjectName = ''demo'', ProjectPath = ''./demo'',
        ModulePath = ''github.com/rahmatrdn/go-skeleton/v2'', Database = ''mysql'',
        UseRedis = False, UseRabbitMQ = False\<rparr>
     (Dir 0x1ED [(''demo'', Dir 0x1ED [(''go.mod'', File 0x1A4 content)])])
   = Inr (Dir 0x1ED [(''demo'', Dir 0x1ED [(''go.mod'', File 0x1A4
       (ReplaceAll content oldModule ''github.com/rahmatrdn/go-skeleton/v2''))])])"
  by (simp add: updateModulePaths_def updateModulePaths_fn_def WriteFile_def ReadFile_def
      Clean_def filepath_Join_def cleanStep_def Perm_def pathString_def HasSuffix_def)

lemma rewrite_module_line:
  "ReplaceAll (''module github.com/rahmatrdn/go-skeleton/v2'' @ CHR 0x0A # rest) oldModule
     ''github.com/rahmatrdn/go-skeleton/v2''
   = ''module github.com/rahmatrdn/go-skeleton/v2/v2'' @ CHR 0x0A #
       replaceFrom oldModule ''github.com/rahmatrdn/go-skeleton/v2'' rest"
  by (simp add: ReplaceAll_def oldModule_def)

text \<open>
  Claim C3: rewriting content that has been rewritten changes nothing, for every module
  path, also one that contains the default module string. The program does not keep to it,
  and a single run of \<^verbatim>\<open>createProject\<close> shows it. With the module path
  \<open>github.com/rahmatrdn/go-skeleton/v2\<close>, \<^verbatim>\<open>createGoMod\<close> writes a \<^verbatim>\<open>go.mod\<close> that begins
  with \<open>module github.com/rahmatrdn/go-skeleton/v2\<close>, in which the module path is in place
  already; \<^verbatim>\<open>updateModulePaths\<close>, the next step, finds the default module string in it and
  substitutes again, and \<^verbatim>\<open>go.mod\<close> begins with
  \<open>module github.com/rahmatrdn/go-skeleton/v2/v2\<close>. Likewise the content
  \<open>github.com/rahmatrdn/go-skeleton\<close> rewritten once is the module path, and rewritten twice
  it ends in \<open>/v2/v2\<close>.
\<close>

theorem updateModulePaths_rewrites_twice:
  "andThen (createGoMod 0x12 \<lparr>ProjectName = ''demo'', ProjectPath = ''./demo'',
        ModulePath = ''github.com/rahmatrdn/go-skeleton/v2'', Database = ''mysql'',
        UseRedis = False, UseRabbitMQ = False\<rparr> (Dir 0x1ED [(''demo'', Dir 0x1ED [])]))
     (updateModulePaths 0x12 \<lparr>ProjectName = ''demo'', ProjectPath = ''./demo'',
        ModulePath = ''github.com/rahmatrdn/go-skeleton/v2'', Database = ''mysql'',
        UseRedis = False, UseRabbitMQ = False\<rparr>)
   = Inr (Dir 0x1ED [(''demo'', Dir 0x1ED [(''go.mod'', File 0x1A4
       (ReplaceAll (goModContent \<lparr>ProjectName = ''demo'', ProjectPath = ''./demo'',
        ModulePath = ''github.com/rahmatrdn/go-skeleton/v2'', Database = ''mysql'',
        UseRedis = False, UseRabbitMQ = False\<rparr>) oldModule ''github.com/rahmatrdn/go-skeleton/v2''))])])
   \<and> HasPrefix (goModContent \<lparr>ProjectName = ''demo'', ProjectPath = ''./demo'',
        ModulePath = ''github.com/rahmatrdn/go-skeleton/v2'', Database = ''mysql'',
        UseRedis = False, UseRabbitMQ = False\<rparr>) (''module github.com/rahmatrdn/go-skeleton/v2'' @ [CHR 0x0A])
   \<and> HasPrefix (ReplaceAll (goModContent \<lparr>ProjectName = ''demo'', ProjectPath = ''./demo'',
        ModulePath = ''github.com/rahmatrdn/go-skeleton/v2'', Database = ''mysql'',
        UseRedis = False, UseRabbitMQ = False\<rparr>) oldModule ''github.com/rahmatrdn/go-skeleton/v2'')
        (''module github.com/rahmatrdn/go-skeleton/v2/v2'' @ [CHR 0x0A])
   \<and> ReplaceAll ''github.com/rahmatrdn/go-skeleton'' oldModule
        ''github.com/rahmatrdn/go-skeleton/v2''
      = ''github.com/rahmatrdn/go-skeleton/v2''
   \<and> ReplaceAll (ReplaceAll ''github.com/rahmatrdn/go-skeleton'' oldModule
                    ''github.com/rahmatrdn/go-skeleton/v2'') oldModule
        ''github.com/rahmatrdn/go-skeleton/v2''
      = ''github.com/rahmatrdn/go-skeleton/v2/v2''"
proof -
  obtain rest where g: "goModContent \<lparr>ProjectName = ''demo'', ProjectPath = ''./demo'',
        ModulePath = ''github.com/rahmatrdn/go-skeleton/v2'', Database = ''mysql'',
        UseRedis = False, UseRabbitMQ = False\<rparr>
      = ''module github.com/rahmatrdn/go-skeleton/v2'' @ CHR 0x0A # rest"
    using goModContent_begins [of "\<lparr>ProjectName = ''demo'', ProjectPath = ''./demo'',
        ModulePath = ''github.com/rahmatrdn/go-skeleton/v2'', Database = ''mysql'',
        UseRedis = False, UseRabbitMQ = False\<rparr>"] by auto
  have 1: "andThen (createGoMod 0x12 \<lparr>ProjectName = ''demo'', ProjectPath = ''./demo'',
        ModulePath = ''github.com/rahmatrdn/go-skeleton/v2'', Database = ''mysql'',
        UseRedis = False, UseRabbitMQ = False\<rparr> (Dir 0x1ED [(''demo'', Dir 0x1ED [])]))
     (updateModulePaths 0x12 \<lparr>ProjectName = ''demo'', ProjectPath = ''./demo'',
        ModulePath = ''github.com/rahmatrdn/go-skeleton/v2'', Database = ''mysql'',
        UseRedis = False, UseRabbitMQ = False\<rparr>)
   = Inr (Dir 0x1ED [(''demo'', Dir 0x1ED [(''go.mod'', File 0x1A4
       (ReplaceAll (goModContent \<lparr>ProjectName = ''demo'', ProjectPath = ''./demo'',
        ModulePath = ''github.com/rahmatrdn/go-skeleton/v2'', Database = ''mysql'',
        UseRedis = False, UseRabbitMQ = False\<rparr>) oldModule ''github.com/rahmatrdn/go-skeleton/v2''))])])"
    by (simp only: createGoMod_demo updateModulePaths_demo andThen_def sum.case)
  have 2: "HasPrefix (goModContent \<lparr>ProjectName = ''demo'', ProjectPath = ''./demo'',
        ModulePath = ''github.com/rahmatrdn/go-skeleton/v2'', Database = ''mysql'',
        UseRedis = False, UseRabbitMQ = False\<rparr>) (''module github.com/rahmatrdn/go-skeleton/v2'' @ [CHR 0x0A])"
    unfolding g by simp
  have 3: "HasPrefix (ReplaceAll (goModContent \<lparr>ProjectName = ''demo'', ProjectPath = ''./demo'',
        ModulePath = ''github.com/rahmatrdn/go-skeleton/v2'', Database = ''mysql'',
        UseRedis = False, UseRabbitMQ = False\<rparr>) oldModule ''github.com/rahmatrdn/go-skeleton/v2'')
        (''module github.com/rahmatrdn/go-skeleton/v2/v2'' @ [CHR 0x0A])"
    unfolding g rewrite_module_line by simp
  have 4: "ReplaceAll ''github.com/rahmatrdn/go-skeleton'' oldModule
        ''github.com/rahmatrdn/go-skeleton/v2''
      = ''github.com/rahmatrdn/go-skeleton/v2''"
    by (simp add: ReplaceAll_def oldModule_def)
  have 5: "ReplaceAll (ReplaceAll ''github.com/rahmatrdn/go-skeleton'' oldModule
                    ''github.com/rahmatrdn/go-skeleton/v2'') oldModule
        ''github.com/rahmatrdn/go-skeleton/v2''
      = ''github.com/rahmatrdn/go-skeleton/v2/v2''"
    by (simp add: ReplaceAll_def oldModule_def)
  from 1 2 3 4 5 show ?thesis
    by (intro conjI)
qed

section \<open>Properties of the file system\<close>

lemma lookup_append:
  "lookup fs (p @ q) = (case lookup fs p of None \<Rightarrow> None | Some n \<Rightarrow> lookup n q)"
  by (induction fs p rule: lookup.induct) (auto split: option.splits)

lemma lookup_None_append: "lookup fs p = None \<Longrightarrow> lookup fs (p @ q) = None"
  by (simp add: lookup_append)

lemma lookup_File_append:
  "lookup fs p = Some (File m c) \<Longrightarrow> q \<noteq> [] \<Longrightarrow> lookup fs (p @ q) = None"
  by (cases q) (simp_all add: lookup_append)

lemma lookup_single: "lookup (Dir m es) [x] = map_of es x"
  by (simp split: option.splits)

lemma alter_Inr_nonempty: "alter f fs p = Inr fs' \<Longrightarrow> p \<noteq> []"
  by (cases p) (auto split: sum.splits)

lemma alter_Inr_IsDir: "alter f fs p = Inr fs' \<Longrightarrow> IsDir fs \<and> IsDir fs'"
  by (induction f fs p rule: alter.induct) (auto split: sum.splits option.splits)

text \<open>What is at the altered path afterwards, and below it.\<close>

lemma lookup_alter_below:
  "alter f fs p = Inr fs' \<Longrightarrow>
   \<exists>r. f (lookup fs p) = Inr r \<and>
       (\<forall>q. lookup fs' (p @ q) = (case r of None \<Rightarrow> None | Some n \<Rightarrow> lookup n q))"
proof (induction f fs p arbitrary: fs' rule: alter.induct)
  case (1 f n)
  then show ?case by (simp split: sum.splits)
next
  case (2 f m c x p)
  then show ?case by simp
next
  case (3 f m es x)
  then show ?case
    by (auto simp: lookup_single AList.update_conv' AList.delete_conv'
        split: sum.splits option.splits)
next
  case (4 f m es x y p)
  from "4.prems" obtain ch ch' where ch: "map_of es x = Some ch"
    and a: "alter f ch (y # p) = Inr ch'" and fs': "fs' = Dir m (AList.update x ch' es)"
    by (auto split: sum.splits option.splits)
  from "4.IH" [OF ch a] obtain r where r: "f (lookup ch (y # p)) = Inr r"
    and below: "\<And>q. lookup ch' ((y # p) @ q) = (case r of None \<Rightarrow> None | Some n \<Rightarrow> lookup n q)"
    by blast
  show ?case
  proof (intro exI conjI allI)
    show "f (lookup (Dir m es) (x # y # p)) = Inr r"
      using ch r by simp
    show "lookup fs' ((x # y # p) @ q) = (case r of None \<Rightarrow> None | Some n \<Rightarrow> lookup n q)" for q
      using below [of q] by (simp add: fs' AList.update_conv')
  qed
qed

lemma lookup_alter_same:
  "alter f fs p = Inr fs' \<Longrightarrow> f (lookup fs p) = Inr (lookup fs' p)"
  using lookup_alter_below [of f fs p fs'] 
  by (metis append_Nil2 lookup.simps(1) option.case_eq_if option.collapse)

text \<open>Paths that part from the altered path are left alone.\<close>

lemma lookup_alter_diverge:
  "alter f fs p = Inr fs' \<Longrightarrow> \<not> prefix p q \<Longrightarrow> \<not> prefix q p \<Longrightarrow> lookup fs' q = lookup fs q"
proof (induction f fs p arbitrary: fs' q rule: alter.induct)
  case (1 f n)
  then show ?case by simp
next
  case (2 f m c x p)
  then show ?case by simp
next
  case (3 f m es x)
  then obtain y q' where q: "q = y # q'" "y \<noteq> x"
    by (cases q) auto
  with 3 show ?case
    by (auto simp: AList.update_conv' AList.delete_conv' split: sum.splits option.splits)
next
  case (4 f m es x y p)
  then obtain z q' where q: "q = z # q'"
    by (cases q) auto
  show ?case
  proof (cases "z = x")
    case True
    with 4 q show ?thesis
      by (auto simp: AList.update_conv' split: sum.splits option.splits)
  next
    case False
    with 4 q show ?thesis
      by (auto simp: AList.update_conv' split: sum.splits option.splits)
  qed
qed

text \<open>The directories on the way to the altered path stay directories, with their mode.\<close>

lemma lookup_alter_above:
  "alter f fs p = Inr fs' \<Longrightarrow> strict_prefix q p \<Longrightarrow>
   \<exists>m es es'. lookup fs q = Some (Dir m es) \<and> lookup fs' q = Some (Dir m es')"
proof (induction f fs p arbitrary: fs' q rule: alter.induct)
  case (1 f n)
  then show ?case by simp
next
  case (2 f m c x p)
  then show ?case by simp
next
  case (3 f m es x)
  then have "q = []"
    by (cases q) (auto simp: strict_prefix_def)
  with 3 show ?case
    by (auto split: sum.splits option.splits)
next
  case (4 f m es x y p)
  show ?case
  proof (cases q)
    case Nil
    with 4 show ?thesis by (auto split: sum.splits option.splits)
  next
    case (Cons z q')
    with 4 have z: "z = x" and sp: "strict_prefix q' (y # p)"
      by (auto simp: strict_prefix_def)
    with 4 Cons show ?thesis
      by (auto simp: AList.update_conv' split: sum.splits option.splits)
  qed
qed

lemma path_cases:
  obtains (same) "q = p" | (below) "strict_prefix p q" | (above) "strict_prefix q p"
  | (apart) "\<not> prefix p q" "\<not> prefix q p"
  by (auto simp: strict_prefix_def)

text \<open>Files elsewhere are untouched by any alteration that succeeds.\<close>

lemma alter_keeps_file:
  assumes "alter f fs p = Inr fs'" "lookup fs q = Some (File m c)" "q \<noteq> p"
  shows "lookup fs' q = Some (File m c) \<or> (strict_prefix p q)"
proof (cases rule: path_cases [of q p])
  case same
  with assms show ?thesis by simp
next
  case below
  then show ?thesis by simp
next
  case above
  with assms lookup_alter_above [of f fs p fs' q] show ?thesis by auto
next
  case apart
  with assms lookup_alter_diverge [of f fs p fs' q] show ?thesis by simp
qed

section \<open>Paths of the project\<close>

lemma cleanStep_name:
  "c \<noteq> [] \<Longrightarrow> c \<noteq> ''.'' \<Longrightarrow> c \<noteq> ''..'' \<Longrightarrow> cleanStep acc c = acc @ [c]"
  by (simp add: cleanStep_def)

lemma Join_literals:
  "filepath_Join p ''config/mysql.go'' = p @ [''config'', ''mysql.go'']"
  "filepath_Join p ''config/postgre.go'' = p @ [''config'', ''postgre.go'']"
  "filepath_Join p ''config/mongodb.go'' = p @ [''config'', ''mongodb.go'']"
  "filepath_Join p ''config/gorm.go'' = p @ [''config'', ''gorm.go'']"
  "filepath_Join p ''config/redis.go'' = p @ [''config'', ''redis.go'']"
  "filepath_Join p ''config/rabbitmq.go'' = p @ [''config'', ''rabbitmq.go'']"
  "filepath_Join p ''config/config.go'' = p @ [''config'', ''config.go'']"
  "filepath_Join p ''internal/repository/mysql'' = p @ [''internal'', ''repository'', ''mysql'']"
  "filepath_Join p ''internal/repository/mongodb'' = p @ [''internal'', ''repository'', ''mongodb'']"
  "filepath_Join p ''go.mod'' = p @ [''go.mod'']"
  "filepath_Join p ''.gitignore'' = p @ [''.gitignore'']"
  "filepath_Join p ''.devcontainer'' = p @ [''.devcontainer'']"
  "filepath_Join p ''docker-compose.yml'' = p @ [''docker-compose.yml'']"
  "filepath_Join p ''.devcontainer/.env.devcontainer'' = p @ [''.devcontainer'', ''.env.devcontainer'']"
  by (simp_all add: filepath_Join_def cleanStep_name)

section \<open>Removing files\<close>

text \<open>An alteration succeeds when the directory of the last component is there and \<open>f\<close> agrees.\<close>

lemma alter_succeeds:
  "p \<noteq> [] \<Longrightarrow> lookup fs (butlast p) = Some (Dir m es) \<Longrightarrow> f (lookup fs p) = Inr r \<Longrightarrow>
   \<exists>fs'. alter f fs p = Inr fs'"
proof (induction f fs p arbitrary: m es rule: alter.induct)
  case (1 f n)
  then show ?case by simp
next
  case (2 f m' c x p)
  then show ?case by (cases p) simp_all
next
  case (3 f m' es' x)
  then show ?case
    by (auto simp: lookup_single split: option.splits)
next
  case (4 f m' es' x y p)
  from "4.prems" obtain ch where ch: "map_of es' x = Some ch"
    by (auto split: option.splits)
  with "4.prems" have "lookup ch (butlast (y # p)) = Some (Dir m es)" "f (lookup ch (y # p)) = Inr r"
    by auto
  with "4.IH" [OF ch] obtain ch' where "alter f ch (y # p) = Inr ch'"
    by blast
  with ch show ?case by simp
qed

lemma lookup_butlast_Dir:
  assumes "lookup fs p = Some n" "p \<noteq> []"
  shows "\<exists>m es. lookup fs (butlast p) = Some (Dir m es)"
proof -
  from assms have "lookup fs (butlast p @ [last p]) = Some n"
    by simp
  then show ?thesis
    by (cases "lookup fs (butlast p)"; cases "the (lookup fs (butlast p))")
       (auto simp: lookup_append)
qed

text \<open>A removal creates nothing.\<close>

lemma alter_delete_None:
  assumes del: "\<And>x r. f x = Inr r \<Longrightarrow> r = None"
    and a: "alter f fs p = Inr fs'" and q: "lookup fs q = None"
  shows "lookup fs' q = None"
proof (cases rule: path_cases [of q p])
  case same
  with lookup_alter_same [OF a] del show ?thesis by simp
next
  case below
  then obtain r where "q = p @ r"
    by (auto simp: strict_prefix_def prefix_def)
  with lookup_alter_below [OF a] del show ?thesis
    by (auto split: option.splits)
next
  case above
  from lookup_alter_above [OF a above] q show ?thesis by auto
next
  case apart
  with lookup_alter_diverge [OF a] q show ?thesis by simp
qed

lemma Remove_Inr:
  assumes "Remove fs p = Inr fs'"
  obtains f where "alter f fs p = Inr fs'" "\<And>x r. f x = Inr r \<Longrightarrow> r = None"
    "\<And>m c. f (Some (File m c)) = Inr None" "f None = Inl ENOENT"
proof
  let ?f = "\<lambda>old. case old of None \<Rightarrow> Inl ENOENT | Some (File m c) \<Rightarrow> Inr None
              | Some (Dir m es) \<Rightarrow> (if es = [] then Inr None else Inl ENOTEMPTY)"
  show "alter ?f fs p = Inr fs'"
    using assms by (simp add: Remove_def)
  show "?f x = Inr r \<Longrightarrow> r = None" for x r
    by (cases x; simp split: node.splits if_splits)
  show "?f (Some (File m c)) = Inr None" for m c
    by simp
  show "?f None = Inl ENOENT"
    by simp
qed

lemma RemoveAll_Inr:
  assumes "RemoveAll fs p = Inr fs'"
  obtains "fs' = fs" | "alter (\<lambda>old. Inr None) fs p = Inr fs'"
  using assms by (auto simp: RemoveAll_def split: sum.splits error.splits)

lemma Remove_None: 
  assumes "lookup fs q = None"
  shows "lookup (ignoreErr fs (Remove fs p)) q = None"
proof (cases "Remove fs p")
  case (Inl e)
  with assms show ?thesis by (simp add: ignoreErr_def)
next
  case (Inr fs')
  then obtain f where a: "alter f fs p = Inr fs'" and del: "\<And>x r. f x = Inr r \<Longrightarrow> r = None"
    by (rule Remove_Inr) auto
  from alter_delete_None [of f, OF del a assms] have "lookup fs' q = None"
    by simp
  with Inr show ?thesis by (simp add: ignoreErr_def)
qed

lemma RemoveAll_None:
  assumes "lookup fs q = None"
  shows "lookup (ignoreErr fs (RemoveAll fs p)) q = None"
proof (cases "RemoveAll fs p")
  case (Inl e)
  with assms show ?thesis by (simp add: ignoreErr_def)
next
  case (Inr fs')
  then have "lookup fs' q = None"
  proof (cases rule: RemoveAll_Inr)
    case 1
    with assms show ?thesis by simp
  next
    case 2
    from alter_delete_None [OF _ 2 assms] show ?thesis by simp
  qed
  with Inr show ?thesis by (simp add: ignoreErr_def)
qed

lemma Remove_File:
  assumes "lookup fs p = Some (File m c)" "p \<noteq> []"
  shows "lookup (ignoreErr fs (Remove fs p)) p = None"
proof -
  let ?f = "\<lambda>old. case old of None \<Rightarrow> Inl ENOENT | Some (File m c) \<Rightarrow> Inr None
              | Some (Dir m es) \<Rightarrow> (if es = [] then Inr None else Inl ENOTEMPTY)"
  from assms lookup_butlast_Dir obtain m' es' where "lookup fs (butlast p) = Some (Dir m' es')"
    by blast
  moreover have "?f (lookup fs p) = Inr None"
    using assms by simp
  ultimately obtain fs' where a: "alter ?f fs p = Inr fs'"
    using alter_succeeds [OF assms(2), of fs m' es' ?f None] by blast
  from lookup_alter_same [OF a] assms have "lookup fs' p = None"
    by simp
  with a show ?thesis
    by (simp add: ignoreErr_def Remove_def)
qed

lemma Remove_apart:
  assumes "\<not> prefix p q" "\<not> prefix q p"
  shows "lookup (ignoreErr fs (Remove fs p)) q = lookup fs q"
proof (cases "Remove fs p")
  case (Inl e)
  then show ?thesis by (simp add: ignoreErr_def)
next
  case (Inr fs')
  then obtain f where "alter f fs p = Inr fs'"
    by (rule Remove_Inr) auto
  from lookup_alter_diverge [OF this assms] Inr show ?thesis
    by (simp add: ignoreErr_def)
qed

lemma RemoveAll_apart:
  assumes "\<not> prefix p q" "\<not> prefix q p"
  shows "lookup (ignoreErr fs (RemoveAll fs p)) q = lookup fs q"
proof (cases "RemoveAll fs p")
  case (Inl e)
  then show ?thesis by (simp add: ignoreErr_def)
next
  case (Inr fs')
  then have "lookup fs' q = lookup fs q"
  proof (cases rule: RemoveAll_Inr)
    case 1
    then show ?thesis by simp
  next
    case 2
    from lookup_alter_diverge [OF 2 assms] show ?thesis .
  qed
  with Inr show ?thesis by (simp add: ignoreErr_def)
qed

text \<open>A removal of something that is not there leaves the tree as it was.\<close>

lemma Remove_absent:
  assumes "lookup fs p = None"
  shows "ignoreErr fs (Remove fs p) = fs"
proof (cases "Remove fs p")
  case (Inl e)
  then show ?thesis by (simp add: ignoreErr_def)
next
  case (Inr fs')
  then obtain f where a: "alter f fs p = Inr fs'" and "f None = Inl ENOENT"
    by (rule Remove_Inr) auto
  with lookup_alter_same [OF a] assms show ?thesis by simp
qed

lemma alter_delete_absent:
  "alter (\<lambda>old. Inr None) fs p = Inr fs' \<Longrightarrow> lookup fs p = None \<Longrightarrow> fs' = fs"
proof (induction "\<lambda>old :: node option. (Inr None :: error + node option)" fs p arbitrary: fs'
    rule: alter.induct)
  case (1 n)
  then show ?case by simp
next
  case (2 m c x p)
  then show ?case by simp
next
  case (3 m es x)
  from "3.prems" have "map_of es x = None"
    by (simp split: option.splits)
  then have "AList.delete x es = es"
    by (simp add: map_of_eq_None_iff)
  with "3.prems" show ?case by simp
next
  case (4 m es x y p)
  from "4.prems" obtain ch ch' where ch: "map_of es x = Some ch"
    and a: "alter (\<lambda>old. Inr None) ch (y # p) = Inr ch'" and fs': "fs' = Dir m (AList.update x ch' es)"
    by (auto split: sum.splits option.splits)
  from "4.prems" ch have "lookup ch (y # p) = None"
    by simp
  with "4.hyps" [OF ch a] have "ch' = ch" .
  with ch fs' show ?case
    by (simp add: AList.update_triv)
qed

lemma RemoveAll_absent:
  assumes "lookup fs p = None"
  shows "ignoreErr fs (RemoveAll fs p) = fs"
proof (cases "RemoveAll fs p")
  case (Inl e)
  then show ?thesis by (simp add: ignoreErr_def)
next
  case (Inr fs')
  then have "fs' = fs"
  proof (cases rule: RemoveAll_Inr)
    case 1
    then show ?thesis .
  next
    case 2
    then show ?thesis using assms by (rule alter_delete_absent)
  qed
  with Inr show ?thesis by (simp add: ignoreErr_def)
qed

section \<open>Pruning\<close>

lemma dbConfigs_Some:
  assumes "dbConfigs config db = Some p"
  obtains n where "p = Clean (ProjectPath config) @ [''config'', n]"
    "n \<in> {''mysql.go'', ''postgre.go'', ''mongodb.go''}" "db \<in> {''mysql'', ''postgresql'', ''mongodb''}"
  using assms by (auto simp: dbConfigs_def Join_literals split: if_splits)

lemma dbRepos_Some:
  assumes "dbRepos config db = Some p"
  obtains "p = Clean (ProjectPath config) @ [''internal'', ''repository'', ''mysql'']"
    "db \<in> {''mysql'', ''postgresql''}"
  | "p = Clean (ProjectPath config) @ [''internal'', ''repository'', ''mongodb'']" "db = ''mongodb''"
  using assms by (auto simp: dbRepos_def Join_literals split: if_splits)

lemma dbConfigs_mysql_postgresql:
  "db = ''mysql'' \<or> db = ''postgresql'' \<Longrightarrow> \<exists>p. dbConfigs config db = Some p"
  by (auto simp: dbConfigs_def)

text \<open>Nothing that \<^verbatim>\<open>cleanupFiles\<close> does brings back a path that is gone.\<close>

lemma cleanupConfigs_None:
  "lookup fs q = None \<Longrightarrow> lookup (cleanupConfigs config order fs) q = None"
  by (induction order arbitrary: fs) (auto simp: Let_def Remove_None split: option.splits)

lemma cleanupRepos_None:
  "lookup fs q = None \<Longrightarrow> lookup (cleanupRepos config order fs) q = None"
  by (induction order arbitrary: fs) (auto simp: RemoveAll_None split: option.splits)

text \<open>The removal of a configuration file of a database leaves \<^verbatim>\<open>config/gorm.go\<close> alone.\<close>

lemma Remove_config_keeps_gorm:
  assumes "dbConfigs config db = Some p"
  shows "lookup (ignoreErr fs (Remove fs p)) (Clean (ProjectPath config) @ [''config'', ''gorm.go''])
         = lookup fs (Clean (ProjectPath config) @ [''config'', ''gorm.go''])"
  using assms by (elim dbConfigs_Some) (auto intro!: Remove_apart)

lemma cleanupConfigs_removes_gorm:
  assumes "lookup fs (Clean (ProjectPath config) @ [''config'', ''gorm.go'']) = Some (File m c)"
    and "db \<in> set order" "db \<noteq> Database config" "db = ''mysql'' \<or> db = ''postgresql''"
  shows "lookup (cleanupConfigs config order fs)
           (Clean (ProjectPath config) @ [''config'', ''gorm.go'']) = None"
  using assms
proof (induction order arbitrary: fs)
  case Nil
  then show ?case by simp
next
  case (Cons d ds)
  let ?G = "Clean (ProjectPath config) @ [''config'', ''gorm.go'']"
  show ?case
  proof (cases "dbConfigs config d")
    case None
    with Cons dbConfigs_mysql_postgresql [of db config] have "db \<in> set ds"
      by auto
    with Cons None show ?thesis by simp
  next
    case (Some p)
    let ?fs1 = "ignoreErr fs (Remove fs p)"
    have g1: "lookup ?fs1 ?G = Some (File m c)"
      using Remove_config_keeps_gorm [OF Some] Cons.prems(1) by simp
    show ?thesis
    proof (cases "d \<noteq> Database config \<and> (d = ''mysql'' \<or> d = ''postgresql'')")
      case True
      from g1 have "lookup (ignoreErr ?fs1 (Remove ?fs1 ?G)) ?G = None"
        by (rule Remove_File) simp
      then have "lookup (cleanupConfigs config ds (ignoreErr ?fs1 (Remove ?fs1 ?G))) ?G = None"
        by (rule cleanupConfigs_None)
      with True Some show ?thesis
        by (simp add: Let_def Join_literals)
    next
      case False
      with Cons.prems have in_ds: "db \<in> set ds"
        by auto
      show ?thesis
      proof (cases "d \<noteq> Database config")
        case True
        with False Some Cons.IH [OF g1 in_ds Cons.prems(3,4)] show ?thesis
          by (simp add: Let_def)
      next
        case False
        with Some Cons.IH [OF Cons.prems(1) in_ds Cons.prems(3,4)] show ?thesis
          by simp
      qed
    qed
  qed
qed

lemma RemoveAll_gone:
  assumes "p \<noteq> []"
  shows "lookup (ignoreErr fs (RemoveAll fs p)) p = None"
proof (cases "lookup fs p")
  case None
  then show ?thesis by (simp add: RemoveAll_absent)
next
  case (Some n)
  with assms lookup_butlast_Dir obtain m es where "lookup fs (butlast p) = Some (Dir m es)"
    by blast
  from alter_succeeds [OF assms this, of "\<lambda>old. Inr None" None]
  obtain fs' where a: "alter (\<lambda>old. Inr None) fs p = Inr fs'"
    by auto
  from lookup_alter_same [OF a] have "lookup fs' p = None"
    by simp
  with a show ?thesis
    by (simp add: ignoreErr_def RemoveAll_def)
qed

text \<open>
  Everything \<^verbatim>\<open>cleanupFiles\<close> removes from \<^verbatim>\<open>config\<close> is apart from what lies under
  \<^verbatim>\<open>internal\<close>.
\<close>

lemma cleanupConfigs_keeps_internal:
  "lookup (cleanupConfigs config order fs) (Clean (ProjectPath config) @ ''internal'' # r)
   = lookup fs (Clean (ProjectPath config) @ ''internal'' # r)"
proof (induction order arbitrary: fs)
  case Nil
  then show ?case by simp
next
  case (Cons d ds)
  show ?case
  proof (cases "dbConfigs config d")
    case None
    with Cons show ?thesis by simp
  next
    case (Some p)
    then obtain n where p: "p = Clean (ProjectPath config) @ [''config'', n]"
      by (rule dbConfigs_Some)
    have "lookup (ignoreErr fs' (Remove fs' (Clean (ProjectPath config) @ [''config'', n'])))
            (Clean (ProjectPath config) @ ''internal'' # r)
          = lookup fs' (Clean (ProjectPath config) @ ''internal'' # r)" for fs' n'
      by (rule Remove_apart) simp_all
    with Some p Cons.IH show ?thesis
      by (simp add: Let_def Join_literals)
  qed
qed

lemma cleanupRepos_keeps_shared:
  assumes "Database config = ''mysql'' \<or> Database config = ''postgresql''"
  shows "lookup (cleanupRepos config order fs)
           (Clean (ProjectPath config) @ ''internal'' # ''repository'' # ''mysql'' # r)
         = lookup fs (Clean (ProjectPath config) @ ''internal'' # ''repository'' # ''mysql'' # r)"
proof (induction order arbitrary: fs)
  case Nil
  then show ?case by simp
next
  case (Cons d ds)
  show ?case
  proof (cases "dbRepos config d")
    case None
    with Cons show ?thesis by simp
  next
    case (Some p)
    then show ?thesis
    proof (cases rule: dbRepos_Some)
      case 1
      with assms Some Cons.IH show ?thesis
        by auto
    next
      case 2
      have "lookup (ignoreErr fs (RemoveAll fs p))
              (Clean (ProjectPath config) @ ''internal'' # ''repository'' # ''mysql'' # r)
            = lookup fs (Clean (ProjectPath config) @ ''internal'' # ''repository'' # ''mysql'' # r)"
        unfolding 2 by (rule RemoveAll_apart) simp_all
      with Some Cons.IH show ?thesis
        by simp
    qed
  qed
qed

lemma cleanupRepos_removes_shared:
  assumes "Database config \<noteq> ''mysql''" "Database config \<noteq> ''postgresql''"
    and "''mysql'' \<in> set order \<or> ''postgresql'' \<in> set order"
  shows "lookup (cleanupRepos config order fs)
           (Clean (ProjectPath config) @ [''internal'', ''repository'', ''mysql'']) = None"
  using assms(3)
proof (induction order arbitrary: fs)
  case Nil
  then show ?case by simp
next
  case (Cons d ds)
  let ?R = "Clean (ProjectPath config) @ [''internal'', ''repository'', ''mysql'']"
  show ?case
  proof (cases "d = ''mysql'' \<or> d = ''postgresql''")
    case True
    then have p: "dbRepos config d = Some ?R"
      by (auto simp: dbRepos_def Join_literals)
    have "lookup (ignoreErr fs (RemoveAll fs ?R)) ?R = None"
      by (rule RemoveAll_gone) simp
    then have "lookup (cleanupRepos config ds (ignoreErr fs (RemoveAll fs ?R))) ?R = None"
      by (rule cleanupRepos_None)
    with True p assms(1,2) show ?thesis
      by auto
  next
    case False
    with Cons.prems have "''mysql'' \<in> set ds \<or> ''postgresql'' \<in> set ds"
      by auto
    from Cons.IH [OF this] show ?thesis
      by (auto split: option.splits)
  qed
qed

text \<open>
  The directory \<^verbatim>\<open>internal/repository/mysql\<close>, which mysql and postgresql share, is kept
  with all it holds when one of the two is selected, and removed when mongodb is.
\<close>

lemma cleanupFiles_shared_repository:
  assumes "cleanupFiles order1 order2 config fs = Inr fs'"
  shows "(Database config = ''mysql'' \<or> Database config = ''postgresql'' \<longrightarrow>
            lookup fs' (Clean (ProjectPath config) @ ''internal'' # ''repository'' # ''mysql'' # r)
            = lookup fs (Clean (ProjectPath config) @ ''internal'' # ''repository'' # ''mysql'' # r))
       \<and> (Database config = ''mongodb'' \<and> (''mysql'' \<in> set order2 \<or> ''postgresql'' \<in> set order2) \<longrightarrow>
            lookup fs' (Clean (ProjectPath config) @ [''internal'', ''repository'', ''mysql'']) = None)"
proof (intro conjI impI)
  let ?fs1 = "cleanupConfigs config order1 fs"
  let ?fs2 = "cleanupRepos config order2 ?fs1"
  have redis: "lookup (ignoreErr fs0 (Remove fs0 (Clean (ProjectPath config) @ [''config'', n])))
                 (Clean (ProjectPath config) @ ''internal'' # q)
               = lookup fs0 (Clean (ProjectPath config) @ ''internal'' # q)" for fs0 n q
    by (rule Remove_apart) simp_all
  {
    assume db: "Database config = ''mysql'' \<or> Database config = ''postgresql''"
    have "lookup ?fs2 (Clean (ProjectPath config) @ ''internal'' # ''repository'' # ''mysql'' # r)
          = lookup fs (Clean (ProjectPath config) @ ''internal'' # ''repository'' # ''mysql'' # r)"
      by (simp add: cleanupRepos_keeps_shared [OF db] cleanupConfigs_keeps_internal)
    with assms
    show "lookup fs' (Clean (ProjectPath config) @ ''internal'' # ''repository'' # ''mysql'' # r)
          = lookup fs (Clean (ProjectPath config) @ ''internal'' # ''repository'' # ''mysql'' # r)"
      by (auto simp: cleanupFiles_def Let_def Join_literals redis)
  }
  {
    assume db: "Database config = ''mongodb'' \<and> (''mysql'' \<in> set order2 \<or> ''postgresql'' \<in> set order2)"
    then have "lookup ?fs2 (Clean (ProjectPath config) @ [''internal'', ''repository'', ''mysql'']) = None"
      by (intro cleanupRepos_removes_shared) auto
    with assms
    show "lookup fs' (Clean (ProjectPath config) @ [''internal'', ''repository'', ''mysql'']) = None"
      by (auto simp: cleanupFiles_def Let_def Join_literals redis)
  }
qed

text \<open>
  Claim C1: after \<^verbatim>\<open>cleanupFiles\<close>, what mysql and postgresql share (the directory
  \<^verbatim>\<open>internal/repository/mysql\<close> and the file \<^verbatim>\<open>config/gorm.go\<close>) is still there when
  one of the two is selected, and removed only when neither is. The code keeps the
  directory so, but not the file: the first loop removes \<^verbatim>\<open>config/gorm.go\<close> whenever it
  meets a key among mysql and postgresql that is not the selected database, and one of the
  two never is. Whatever the database, a file \<^verbatim>\<open>config/gorm.go\<close> is gone afterwards.
\<close>

theorem cleanupFiles_removes_gorm:
  assumes "''mysql'' \<in> set order1" "''postgresql'' \<in> set order1"
    and "lookup fs (Clean (ProjectPath config) @ [''config'', ''gorm.go'']) = Some (File m c)"
  shows "\<exists>fs'. cleanupFiles order1 order2 config fs = Inr fs'
           \<and> lookup fs' (Clean (ProjectPath config) @ [''config'', ''gorm.go'']) = None"
proof -
  let ?G = "Clean (ProjectPath config) @ [''config'', ''gorm.go'']"
  define db where "db = (if Database config = ''mysql'' then ''postgresql'' else ''mysql'')"
  with assms have "db \<in> set order1" "db \<noteq> Database config" "db = ''mysql'' \<or> db = ''postgresql''"
    by auto
  with assms(3) have "lookup (cleanupConfigs config order1 fs) ?G = None"
    by (rule cleanupConfigs_removes_gorm)
  then have "lookup (cleanupRepos config order2 (cleanupConfigs config order1 fs)) ?G = None"
    by (rule cleanupRepos_None)
  then show ?thesis
    by (simp add: cleanupFiles_def Let_def Remove_None)
qed

theorem cleanupFiles_removes_gorm_witness:
  "''mysql'' \<in> set [''mongodb'', ''mysql'', ''postgresql'']
   \<and> ''postgresql'' \<in> set [''mongodb'', ''mysql'', ''postgresql'']
   \<and> lookup (Dir 0x1ED [(''demo'', Dir 0x1ED [(''config'', Dir 0x1ED
         [(''gorm.go'', File 0x1A4 ''package config''), (''mysql.go'', File 0x1A4 ''package config'')])])])
        [''demo'', ''config'', ''gorm.go''] = Some (File 0x1A4 ''package config'')
   \<and> (\<exists>fs'. cleanupFiles [''mongodb'', ''mysql'', ''postgresql''] [''postgresql'', ''mongodb'', ''mysql'']
          \<lparr>ProjectName = ''demo'', ProjectPath = ''./demo'', ModulePath = ''example.com/demo'',
             Database = ''mysql'', UseRedis = True, UseRabbitMQ = False\<rparr>
          (Dir 0x1ED [(''demo'', Dir 0x1ED [(''config'', Dir 0x1ED
            [(''gorm.go'', File 0x1A4 ''package config''), (''mysql.go'', File 0x1A4 ''package config'')])])])
          = Inr fs'
        \<and> lookup fs' [''demo'', ''config'', ''gorm.go''] = None)"
proof -
  have c: "Clean ''./demo'' = [''demo'']"
    by (simp add: Clean_def filepath_Join_def cleanStep_def)
  show ?thesis
    using cleanupFiles_removes_gorm [of "[''mongodb'', ''mysql'', ''postgresql'']"
      "Dir 0x1ED [(''demo'', Dir 0x1ED [(''config'', Dir 0x1ED
         [(''gorm.go'', File 0x1A4 ''package config''), (''mysql.go'', File 0x1A4 ''package config'')])])]"
      "\<lparr>ProjectName = ''demo'', ProjectPath = ''./demo'', ModulePath = ''example.com/demo'',
             Database = ''mysql'', UseRedis = True, UseRabbitMQ = False\<rparr>"
      "0x1A4" "''package config''" "[''postgresql'', ''mongodb'', ''mysql'']"]
    by (simp add: c)
qed

lemma cleanupConfigs_absent:
  assumes "\<And>n. lookup fs (Clean (ProjectPath config) @ [''config'', n]) = None"
  shows "cleanupConfigs config order fs = fs"
proof (induction order)
  case Nil
  then show ?case by simp
next
  case (Cons d ds)
  show ?case
  proof (cases "dbConfigs config d")
    case None
    with Cons show ?thesis by simp
  next
    case (Some p)
    then obtain n where "p = Clean (ProjectPath config) @ [''config'', n]"
      by (rule dbConfigs_Some)
    with assms Some Cons show ?thesis
      by (simp add: Let_def Join_literals Remove_absent)
  qed
qed

lemma cleanupRepos_absent:
  assumes "\<And>n. lookup fs (Clean (ProjectPath config) @ [''internal'', ''repository'', n]) = None"
  shows "cleanupRepos config order fs = fs"
proof (induction order)
  case Nil
  then show ?case by simp
next
  case (Cons d ds)
  show ?case
  proof (cases "dbRepos config d")
    case None
    with Cons show ?thesis by simp
  next
    case (Some p)
    then have "lookup fs p = None"
      using assms by (cases rule: dbRepos_Some) simp_all
    with Some Cons show ?thesis
      by (simp add: RemoveAll_absent)
  qed
qed

text \<open>
  The removals in \<^verbatim>\<open>config\<close> do not depend on one another: a file there is left alone by
  the removal of any other, and what is removed under \<^verbatim>\<open>internal\<close> is apart from all of
  them.
\<close>

lemma Remove_config_keeps:
  assumes "n \<noteq> n'"
  shows "lookup (ignoreErr fs (Remove fs (P @ [''config'', n']))) (P @ [''config'', n])
         = lookup fs (P @ [''config'', n])"
  using assms by (intro Remove_apart) auto

lemma cleanupConfigs_removes_file:
  assumes "lookup fs p = Some (File m c)"
    and "db \<in> set order" "db \<noteq> Database config" "dbConfigs config db = Some p"
  shows "lookup (cleanupConfigs config order fs) p = None"
  using assms(1,2)
proof (induction order arbitrary: fs)
  case Nil
  then show ?case by simp
next
  case (Cons d ds)
  let ?P = "Clean (ProjectPath config)"
  from assms(4) obtain n where p: "p = ?P @ [''config'', n]"
    and n: "n \<in> {''mysql.go'', ''postgre.go'', ''mongodb.go''}"
    by (rule dbConfigs_Some)
  have gone: "lookup (cleanupConfigs config ds fs') p = None" if "lookup fs' p = None" for fs'
    using that by (rule cleanupConfigs_None)
  have gorm: "lookup (ignoreErr fs' (Remove fs' (?P @ [''config'', ''gorm.go'']))) p = lookup fs' p"
    for fs'
    unfolding p using n by (intro Remove_config_keeps) auto
  show ?case
  proof (cases "dbConfigs config d")
    case None
    with assms(4) have "d \<noteq> db"
      by auto
    with Cons None show ?thesis
      by simp
  next
    case (Some p')
    then obtain n' where p': "p' = ?P @ [''config'', n']"
      by (rule dbConfigs_Some)
    show ?thesis
    proof (cases "d \<noteq> Database config")
      case False
      with assms(3) have "d \<noteq> db"
        by auto
      with Cons False Some show ?thesis
        by simp
    next
      case True
      let ?fs1 = "ignoreErr fs (Remove fs p')"
      let ?fs2 = "if d = ''mysql'' \<or> d = ''postgresql''
                  then ignoreErr ?fs1 (Remove ?fs1 (?P @ [''config'', ''gorm.go''])) else ?fs1"
      have step: "cleanupConfigs config (d # ds) fs = cleanupConfigs config ds ?fs2"
        using True Some by (simp add: Let_def Join_literals)
      show ?thesis
      proof (cases "p' = p")
        case True
        from Cons.prems(1) have "lookup ?fs1 p = None"
          unfolding True by (rule Remove_File) (simp add: p)
        then have "lookup ?fs2 p = None"
          by (simp add: gorm)
        then show ?thesis
          unfolding step by (rule gone)
      next
        case False
        with p p' have "n \<noteq> n'"
          by auto
        then have "lookup ?fs1 p = lookup fs p"
          unfolding p p' by (rule Remove_config_keeps)
        with Cons.prems(1) have f: "lookup ?fs2 p = Some (File m c)"
          by (simp add: gorm)
        from False Some assms(4) have "d \<noteq> db"
          by auto
        with Cons.prems(2) have "db \<in> set ds"
          by simp
        with f show ?thesis
          unfolding step by (rule Cons.IH)
      qed
    qed
  qed
qed

lemma cleanupConfigs_keeps_other:
  assumes "n \<notin> {''mysql.go'', ''postgre.go'', ''mongodb.go'', ''gorm.go''}"
  shows "lookup (cleanupConfigs config order fs) (Clean (ProjectPath config) @ [''config'', n])
         = lookup fs (Clean (ProjectPath config) @ [''config'', n])"
proof (induction order arbitrary: fs)
  case Nil
  then show ?case by simp
next
  case (Cons d ds)
  show ?case
  proof (cases "dbConfigs config d")
    case None
    with Cons show ?thesis by simp
  next
    case (Some p)
    then obtain n' where p: "p = Clean (ProjectPath config) @ [''config'', n']"
      and n': "n' \<in> {''mysql.go'', ''postgre.go'', ''mongodb.go''}"
      by (rule dbConfigs_Some)
    from n' assms have "n \<noteq> n'"
      by auto
    then have k1: "lookup (ignoreErr fs' (Remove fs' (Clean (ProjectPath config) @ [''config'', n'])))
            (Clean (ProjectPath config) @ [''config'', n])
          = lookup fs' (Clean (ProjectPath config) @ [''config'', n])" for fs'
      by (rule Remove_config_keeps)
    from assms have "n \<noteq> ''gorm.go''"
      by auto
    then have k2: "lookup (ignoreErr fs' (Remove fs' (Clean (ProjectPath config) @ [''config'', ''gorm.go''])))
            (Clean (ProjectPath config) @ [''config'', n])
          = lookup fs' (Clean (ProjectPath config) @ [''config'', n])" for fs'
      by (rule Remove_config_keeps)
    from Some p Cons.IH show ?thesis
      by (simp add: Let_def Join_literals k1 k2)
  qed
qed

lemma cleanupRepos_keeps_config:
  "lookup (cleanupRepos config order fs) (Clean (ProjectPath config) @ ''config'' # r)
   = lookup fs (Clean (ProjectPath config) @ ''config'' # r)"
proof (induction order arbitrary: fs)
  case Nil
  then show ?case by simp
next
  case (Cons d ds)
  show ?case
  proof (cases "dbRepos config d")
    case None
    with Cons show ?thesis by simp
  next
    case (Some p)
    have "lookup (ignoreErr fs (RemoveAll fs p)) (Clean (ProjectPath config) @ ''config'' # r)
          = lookup fs (Clean (ProjectPath config) @ ''config'' # r)"
      using Some by (cases rule: dbRepos_Some) (auto intro!: RemoveAll_apart)
    with Some Cons.IH show ?thesis
      by simp
  qed
qed

lemma cleanupRepos_removes:
  assumes "db \<in> set order" "db \<noteq> Database config" "dbRepos config db = Some p"
    and "\<not> (Database config = ''postgresql'' \<and> db = ''mysql'')"
    and "\<not> (Database config = ''mysql'' \<and> db = ''postgresql'')"
  shows "lookup (cleanupRepos config order fs) p = None"
  using assms(1)
proof (induction order arbitrary: fs)
  case Nil
  then show ?case by simp
next
  case (Cons d ds)
  show ?case
  proof (cases "d = db")
    case True
    from assms(3) have "p \<noteq> []"
      by (cases rule: dbRepos_Some) simp_all
    then have "lookup (ignoreErr fs (RemoveAll fs p)) p = None"
      by (rule RemoveAll_gone)
    then have "lookup (cleanupRepos config ds (ignoreErr fs (RemoveAll fs p))) p = None"
      by (rule cleanupRepos_None)
    with True assms show ?thesis
      by auto
  next
    case False
    with Cons.prems have "db \<in> set ds"
      by simp
    then have "lookup (cleanupRepos config ds fs') p = None" for fs'
      by (rule Cons.IH)
    then show ?thesis
      by (simp split: option.splits)
  qed
qed


text \<open>
  Claim C8: pruning is best-effort per path and never fails. For every configuration, every
  order of the two maps and every file system, \<^verbatim>\<open>cleanupFiles\<close> returns without error,
  whatever is missing of the paths it is to remove. Each of these paths is dealt with on its
  own: the configuration file of a database that is not selected, \<^verbatim>\<open>config/redis.go\<close>
  without Redis and \<^verbatim>\<open>config/rabbitmq.go\<close> without RabbitMQ are gone afterwards when they
  were files, and the repository directory of a database that is not selected (and not
  shared with the selected one) is gone whatever it was, and this whichever of the other
  paths are missing. Nothing is created, and when none of the paths is there the file system
  is returned as it was.
\<close>

theorem cleanupFiles_never_fails:
  "\<exists>fs'. cleanupFiles order1 order2 config fs = Inr fs'
     \<and> (\<forall>db p m c. db \<in> set order1 \<and> db \<noteq> Database config \<and> dbConfigs config db = Some p
           \<and> lookup fs p = Some (File m c) \<longrightarrow> lookup fs' p = None)
     \<and> (\<forall>db p. db \<in> set order2 \<and> db \<noteq> Database config \<and> dbRepos config db = Some p
           \<and> \<not> (Database config = ''postgresql'' \<and> db = ''mysql'')
           \<and> \<not> (Database config = ''mysql'' \<and> db = ''postgresql'') \<longrightarrow> lookup fs' p = None)
     \<and> (\<forall>m c. \<not> UseRedis config
           \<and> lookup fs (Clean (ProjectPath config) @ [''config'', ''redis.go'']) = Some (File m c)
           \<longrightarrow> lookup fs' (Clean (ProjectPath config) @ [''config'', ''redis.go'']) = None)
     \<and> (\<forall>m c. \<not> UseRabbitMQ config
           \<and> lookup fs (Clean (ProjectPath config) @ [''config'', ''rabbitmq.go'']) = Some (File m c)
           \<longrightarrow> lookup fs' (Clean (ProjectPath config) @ [''config'', ''rabbitmq.go'']) = None)
     \<and> (\<forall>q. lookup fs q = None \<longrightarrow> lookup fs' q = None)
     \<and> (lookup fs (Clean (ProjectPath config) @ [''config'']) = None
           \<and> lookup fs (Clean (ProjectPath config) @ [''internal'', ''repository'']) = None
         \<longrightarrow> fs' = fs)"
proof -
  let ?P = "Clean (ProjectPath config)"
  let ?R = "?P @ [''config'', ''redis.go'']"
  let ?Q = "?P @ [''config'', ''rabbitmq.go'']"
  let ?fs1 = "cleanupConfigs config order1 fs"
  let ?fs2 = "cleanupRepos config order2 ?fs1"
  let ?fs3 = "if \<not> UseRedis config then ignoreErr ?fs2 (Remove ?fs2 ?R) else ?fs2"
  let ?fs4 = "if \<not> UseRabbitMQ config then ignoreErr ?fs3 (Remove ?fs3 ?Q) else ?fs3"
  have res: "cleanupFiles order1 order2 config fs = Inr ?fs4"
    by (simp add: cleanupFiles_def Let_def Join_literals)
  have none34: "lookup ?fs4 q = None" if "lookup ?fs2 q = None" for q
    using that by (simp add: Remove_None)
  have none: "lookup ?fs4 q = None" if "lookup ?fs1 q = None" for q
    using that by (intro none34 cleanupRepos_None)
  have a: "lookup ?fs4 p = None"
    if "db \<in> set order1" "db \<noteq> Database config" "dbConfigs config db = Some p"
      "lookup fs p = Some (File m c)" for db p m c
    using that by (intro none cleanupConfigs_removes_file [where db = db and m = m and c = c])
  have b: "lookup ?fs4 p = None"
    if "db \<in> set order2" "db \<noteq> Database config" "dbRepos config db = Some p"
      "\<not> (Database config = ''postgresql'' \<and> db = ''mysql'')"
      "\<not> (Database config = ''mysql'' \<and> db = ''postgresql'')" for db p
    using that by (intro none34 cleanupRepos_removes [where db = db])
  have keep2: "lookup ?fs2 (?P @ [''config'', n]) = lookup fs (?P @ [''config'', n])"
    if "n \<notin> {''mysql.go'', ''postgre.go'', ''mongodb.go'', ''gorm.go''}" for n
    using cleanupRepos_keeps_config [of config order2 ?fs1 "[n]"]
      cleanupConfigs_keeps_other [OF that, of config order1 fs]
    by simp
  have r: "lookup ?fs4 ?R = None" if "\<not> UseRedis config" "lookup fs ?R = Some (File m c)" for m c
  proof -
    from that(2) have "lookup ?fs2 ?R = Some (File m c)"
      by (simp add: keep2)
    then have "lookup (ignoreErr ?fs2 (Remove ?fs2 ?R)) ?R = None"
      by (rule Remove_File) simp
    with that(1) show ?thesis
      by (simp add: Remove_None)
  qed
  have q: "lookup ?fs4 ?Q = None" if "\<not> UseRabbitMQ config" "lookup fs ?Q = Some (File m c)" for m c
  proof -
    from that(2) have "lookup ?fs2 ?Q = Some (File m c)"
      by (simp add: keep2)
    moreover have "lookup (ignoreErr ?fs2 (Remove ?fs2 ?R)) ?Q = lookup ?fs2 ?Q"
      by (rule Remove_config_keeps) simp
    ultimately have "lookup ?fs3 ?Q = Some (File m c)"
      by simp
    then have "lookup (ignoreErr ?fs3 (Remove ?fs3 ?Q)) ?Q = None"
      by (rule Remove_File) simp
    with that(1) show ?thesis
      by simp
  qed
  have n: "lookup ?fs4 q = None" if "lookup fs q = None" for q
    using that by (intro none cleanupConfigs_None)
  have e: "?fs4 = fs" if "lookup fs (?P @ [''config'']) = None"
    "lookup fs (?P @ [''internal'', ''repository'']) = None"
  proof -
    from that(1) have c: "lookup fs (?P @ [''config'', n]) = None" for n
      using lookup_None_append [of fs "?P @ [''config'']" "[n]"] by simp
    from that(2) have r: "lookup fs (?P @ [''internal'', ''repository'', n]) = None" for n
      using lookup_None_append [of fs "?P @ [''internal'', ''repository'']" "[n]"] by simp
    from c r show ?thesis
      by (simp add: cleanupConfigs_absent cleanupRepos_absent Remove_absent)
  qed
  from a have A: "\<forall>db p m c. db \<in> set order1 \<and> db \<noteq> Database config
      \<and> dbConfigs config db = Some p \<and> lookup fs p = Some (File m c) \<longrightarrow> lookup ?fs4 p = None"
    by blast
  from b have B: "\<forall>db p. db \<in> set order2 \<and> db \<noteq> Database config \<and> dbRepos config db = Some p
      \<and> \<not> (Database config = ''postgresql'' \<and> db = ''mysql'')
      \<and> \<not> (Database config = ''mysql'' \<and> db = ''postgresql'') \<longrightarrow> lookup ?fs4 p = None"
    by blast
  from r have R: "\<forall>m c. \<not> UseRedis config \<and> lookup fs ?R = Some (File m c) \<longrightarrow> lookup ?fs4 ?R = None"
    by blast
  from q have Q: "\<forall>m c. \<not> UseRabbitMQ config \<and> lookup fs ?Q = Some (File m c) \<longrightarrow> lookup ?fs4 ?Q = None"
    by blast
  from n have N: "\<forall>q. lookup fs q = None \<longrightarrow> lookup ?fs4 q = None"
    by blast
  from e have E: "lookup fs (?P @ [''config'']) = None
      \<and> lookup fs (?P @ [''internal'', ''repository'']) = None \<longrightarrow> ?fs4 = fs"
    by blast
  show ?thesis
    by (intro exI [of _ ?fs4] conjI res A B R Q N E)
qed

theorem cleanupFiles_never_fails_witness:
  "cleanupFiles [''mongodb'', ''mysql'', ''postgresql''] [''postgresql'', ''mongodb'', ''mysql'']
     \<lparr>ProjectName = ''demo'', ProjectPath = ''./demo'', ModulePath = ''example.com/demo'',
        Database = ''mysql'', UseRedis = False, UseRabbitMQ = False\<rparr>
     (Dir 0x1ED [(''demo'', Dir 0x1ED
        [(''config'', Dir 0x1ED
           [(''config.go'', File 0x1A4 ''package config''),
            (''mongodb.go'', File 0x1A4 ''package config''),
            (''rabbitmq.go'', File 0x1A4 ''package config'')]),
         (''internal'', Dir 0x1ED [(''repository'', Dir 0x1ED
           [(''mongodb'', Dir 0x1ED [(''user.go'', File 0x1A4 ''package mongodb'')])])])])])
   = Inr (Dir 0x1ED [(''demo'', Dir 0x1ED
        [(''config'', Dir 0x1ED [(''config.go'', File 0x1A4 ''package config'')]),
         (''internal'', Dir 0x1ED [(''repository'', Dir 0x1ED [])])])])
   \<and> lookup (Dir 0x1ED [(''demo'', Dir 0x1ED
        [(''config'', Dir 0x1ED
           [(''config.go'', File 0x1A4 ''package config''),
            (''mongodb.go'', File 0x1A4 ''package config''),
            (''rabbitmq.go'', File 0x1A4 ''package config'')]),
         (''internal'', Dir 0x1ED [(''repository'', Dir 0x1ED
           [(''mongodb'', Dir 0x1ED [(''user.go'', File 0x1A4 ''package mongodb'')])])])])]) [''demo'', ''config'', ''postgre.go''] = None
   \<and> lookup (Dir 0x1ED [(''demo'', Dir 0x1ED
        [(''config'', Dir 0x1ED
           [(''config.go'', File 0x1A4 ''package config''),
            (''mongodb.go'', File 0x1A4 ''package config''),
            (''rabbitmq.go'', File 0x1A4 ''package config'')]),
         (''internal'', Dir 0x1ED [(''repository'', Dir 0x1ED
           [(''mongodb'', Dir 0x1ED [(''user.go'', File 0x1A4 ''package mongodb'')])])])])]) [''demo'', ''config'', ''gorm.go''] = None
   \<and> lookup (Dir 0x1ED [(''demo'', Dir 0x1ED
        [(''config'', Dir 0x1ED
           [(''config.go'', File 0x1A4 ''package config''),
            (''mongodb.go'', File 0x1A4 ''package config''),
            (''rabbitmq.go'', File 0x1A4 ''package config'')]),
         (''internal'', Dir 0x1ED [(''repository'', Dir 0x1ED
           [(''mongodb'', Dir 0x1ED [(''user.go'', File 0x1A4 ''package mongodb'')])])])])]) [''demo'', ''config'', ''redis.go''] = None
   \<and> lookup (Dir 0x1ED [(''demo'', Dir 0x1ED
        [(''config'', Dir 0x1ED
           [(''config.go'', File 0x1A4 ''package config''),
            (''mongodb.go'', File 0x1A4 ''package config''),
            (''rabbitmq.go'', File 0x1A4 ''package config'')]),
         (''internal'', Dir 0x1ED [(''repository'', Dir 0x1ED
           [(''mongodb'', Dir 0x1ED [(''user.go'', File 0x1A4 ''package mongodb'')])])])])]) [''demo'', ''config'', ''mongodb.go''] = Some (File 0x1A4 ''package config'')
   \<and> lookup (Dir 0x1ED [(''demo'', Dir 0x1ED
        [(''config'', Dir 0x1ED
           [(''config.go'', File 0x1A4 ''package config''),
            (''mongodb.go'', File 0x1A4 ''package config''),
            (''rabbitmq.go'', File 0x1A4 ''package config'')]),
         (''internal'', Dir 0x1ED [(''repository'', Dir 0x1ED
           [(''mongodb'', Dir 0x1ED [(''user.go'', File 0x1A4 ''package mongodb'')])])])])]) [''demo'', ''config'', ''rabbitmq.go''] = Some (File 0x1A4 ''package config'')
   \<and> lookup (Dir 0x1ED [(''demo'', Dir 0x1ED
        [(''config'', Dir 0x1ED [(''config.go'', File 0x1A4 ''package config'')]),
         (''internal'', Dir 0x1ED [(''repository'', Dir 0x1ED [])])])]) [''demo'', ''config'', ''mongodb.go''] = None
   \<and> lookup (Dir 0x1ED [(''demo'', Dir 0x1ED
        [(''config'', Dir 0x1ED [(''config.go'', File 0x1A4 ''package config'')]),
         (''internal'', Dir 0x1ED [(''repository'', Dir 0x1ED [])])])]) [''demo'', ''config'', ''rabbitmq.go''] = None
   \<and> lookup (Dir 0x1ED [(''demo'', Dir 0x1ED
        [(''config'', Dir 0x1ED [(''config.go'', File 0x1A4 ''package config'')]),
         (''internal'', Dir 0x1ED [(''repository'', Dir 0x1ED [])])])]) [''demo'', ''internal'', ''repository'', ''mongodb''] = None"
proof -
  have c: "Clean ''./demo'' = [''demo'']"
    by (simp add: Clean_def filepath_Join_def cleanStep_def)
  have e: "cleanupFiles [''mongodb'', ''mysql'', ''postgresql''] [''postgresql'', ''mongodb'', ''mysql'']
     \<lparr>ProjectName = ''demo'', ProjectPath = ''./demo'', ModulePath = ''example.com/demo'',
        Database = ''mysql'', UseRedis = False, UseRabbitMQ = False\<rparr>
     (Dir 0x1ED [(''demo'', Dir 0x1ED
        [(''config'', Dir 0x1ED
           [(''config.go'', File 0x1A4 ''package config''),
            (''mongodb.go'', File 0x1A4 ''package config''),
            (''rabbitmq.go'', File 0x1A4 ''package config'')]),
         (''internal'', Dir 0x1ED [(''repository'', Dir 0x1ED
           [(''mongodb'', Dir 0x1ED [(''user.go'', File 0x1A4 ''package mongodb'')])])])])])
   = Inr (Dir 0x1ED [(''demo'', Dir 0x1ED
        [(''config'', Dir 0x1ED [(''config.go'', File 0x1A4 ''package config'')]),
         (''internal'', Dir 0x1ED [(''repository'', Dir 0x1ED [])])])])"
    by code_simp
  show ?thesis
    using cleanupFiles_never_fails [of "[''mongodb'', ''mysql'', ''postgresql'']"
      "[''postgresql'', ''mongodb'', ''mysql'']"
      "\<lparr>ProjectName = ''demo'', ProjectPath = ''./demo'', ModulePath = ''example.com/demo'',
        Database = ''mysql'', UseRedis = False, UseRabbitMQ = False\<rparr>"
      "(Dir 0x1ED [(''demo'', Dir 0x1ED
        [(''config'', Dir 0x1ED
           [(''config.go'', File 0x1A4 ''package config''),
            (''mongodb.go'', File 0x1A4 ''package config''),
            (''rabbitmq.go'', File 0x1A4 ''package config'')]),
         (''internal'', Dir 0x1ED [(''repository'', Dir 0x1ED
           [(''mongodb'', Dir 0x1ED [(''user.go'', File 0x1A4 ''package mongodb'')])])])])])"] e
    by (simp add: c)
qed

section \<open>The run of the program\<close>

lemma promptString_default:
  "defaultValue \<noteq> [] \<Longrightarrow>
   promptString reader prompt defaultValue =
     Some (if TrimSpace (fst (ReadString reader CHR 0x0A)) = [] then defaultValue
           else TrimSpace (fst (ReadString reader CHR 0x0A)),
           snd (ReadString reader CHR 0x0A))"
  by (subst promptString.simps) (simp split: prod.splits)

text \<open>Every default of \<^verbatim>\<open>collectConfiguration\<close> is non-empty, so it always returns.\<close>

lemma collectConfiguration_total:
  "\<exists>config r. collectConfiguration mapLower reader = Some (config, r)"
  by (simp add: collectConfiguration_def promptString_default split: prod.splits)

text \<open>When \<^verbatim>\<open>confirm\<close> returns false, nothing is written.\<close>

lemma main_cancelled:
  assumes "collectConfiguration mapLower (NewReader stdin) = Some (config, (buf, stdin'))"
    and "\<not> confirm mapLower stdin' ''Create project?''"
  shows "main mapLower umask template order1 order2 stdin fs = Some (Exit0 fs)"
  using assms by (simp add: main_def)

text \<open>
  The answers \<open>demo\<close>, three times the default, and \<open>n\<close> to Redis, to RabbitMQ and to the
  final confirmation, arriving in one piece: the reader of \<^verbatim>\<open>collectConfiguration\<close> takes
  all of it into its buffer and leaves the last line there, and \<^verbatim>\<open>confirm\<close> finds the
  input at its end.
\<close>

lemma piped_collectConfiguration:
  "collectConfiguration mapLower (NewReader [''demo\<newline>\<newline>\<newline>1\<newline>n\<newline>n\<newline>n\<newline>''])
   = Some (\<lparr>ProjectName = ''demo'', ProjectPath = ''./demo'',
        ModulePath = ''github.com/yourusername/demo'', Database = ''mysql'',
        UseRedis = False, UseRabbitMQ = False\<rparr>, (''n\<newline>'', []))"
  by code_simp

lemma piped_confirm: "confirm mapLower [] ''Create project?''"
  by code_simp

text \<open>The same answers arriving line by line.\<close>

lemma lines_collectConfiguration:
  "collectConfiguration mapLower (NewReader [''demo\<newline>'', ''\<newline>'', ''\<newline>'', ''1\<newline>'', ''n\<newline>'', ''n\<newline>'', ''n\<newline>''])
   = Some (\<lparr>ProjectName = ''demo'', ProjectPath = ''./demo'',
        ModulePath = ''github.com/yourusername/demo'', Database = ''mysql'',
        UseRedis = False, UseRabbitMQ = False\<rparr>, ([], [''n\<newline>'']))"
  by code_simp

lemma lines_confirm: "\<not> confirm mapLower [''n\<newline>''] ''Create project?''"
  by code_simp

text \<open>The steps of \<^verbatim>\<open>createProject\<close> for this configuration, on a small template.\<close>

lemma demo_MkdirAll:
  "MkdirAll 0x12 (Dir 0x1ED []) (Clean ''./demo'') 0x1ED = Inr (Dir 0x1ED [(''demo'', Dir 0x1ED [])])"
  by code_simp

lemma demo_copyTemplate:
  "copyTemplate 0x12 (Some (Dir 0x1ED
        [(''.devcontainer'', Dir 0x1ED
           [(''.env.devcontainer'', File 0x1A4 ''DB_NAME=PROJECT_DB_NAME'')]),
         (''config'', Dir 0x1ED [(''config.go'', File 0x1A4 ''package config'')])]))
      \<lparr>ProjectName = ''demo'', ProjectPath = ''./demo'',
        ModulePath = ''github.com/yourusername/demo'', Database = ''mysql'',
        UseRedis = False, UseRabbitMQ = False\<rparr>
      (Dir 0x1ED [(''demo'', Dir 0x1ED [])])
   = Inr (Dir 0x1ED [(''demo'', Dir 0x1ED
         [(''.devcontainer'', Dir 0x1ED
           [(''.env.devcontainer'', File 0x1A4 ''DB_NAME=PROJECT_DB_NAME'')]),
          (''config'', Dir 0x1ED [(''config.go'', File 0x1A4 ''package config'')])])])"
  by code_simp

lemma demo_createGoMod:
  "createGoMod 0x12 \<lparr>ProjectName = ''demo'', ProjectPath = ''./demo'',
        ModulePath = ''github.com/yourusername/demo'', Database = ''mysql'',
        UseRedis = False, UseRabbitMQ = False\<rparr>
     (Dir 0x1ED [(''demo'', Dir 0x1ED
         [(''.devcontainer'', Dir 0x1ED
           [(''.env.devcontainer'', File 0x1A4 ''DB_NAME=PROJECT_DB_NAME'')]),
          (''config'', Dir 0x1ED [(''config.go'', File 0x1A4 ''package config'')])])])
   = Inr (Dir 0x1ED [(''demo'', Dir 0x1ED
         [(''.devcontainer'', Dir 0x1ED
           [(''.env.devcontainer'', File 0x1A4 ''DB_NAME=PROJECT_DB_NAME'')]),
          (''config'', Dir 0x1ED [(''config.go'', File 0x1A4 ''package config'')]),
          (''go.mod'', File 0x1A4 (goModContent \<lparr>ProjectName = ''demo'', ProjectPath = ''./demo'',
        ModulePath = ''github.com/yourusername/demo'', Database = ''mysql'',
        UseRedis = False, UseRabbitMQ = False\<rparr>))])])"
  by (simp add: createGoMod_def WriteFile_def Clean_def filepath_Join_def cleanStep_def Perm_def)

lemma demo_updateModulePaths:
  "updateModulePaths 0x12 \<lparr>ProjectName = ''demo'', ProjectPath = ''./demo'',
        ModulePath = ''github.com/yourusername/demo'', Database = ''mysql'',
        UseRedis = False, UseRabbitMQ = False\<rparr>
     (Dir 0x1ED [(''demo'', Dir 0x1ED
         [(''.devcontainer'', Dir 0x1ED
           [(''.env.devcontainer'', File 0x1A4 ''DB_NAME=PROJECT_DB_NAME'')]),
          (''config'', Dir 0x1ED [(''config.go'', File 0x1A4 ''package config'')]),
          (''go.mod'', File 0x1A4 (goModContent \<lparr>ProjectName = ''demo'', ProjectPath = ''./demo'',
        ModulePath = ''github.com/yourusername/demo'', Database = ''mysql'',
        UseRedis = False, UseRabbitMQ = False\<rparr>))])])
   = Inr (Dir 0x1ED [(''demo'', Dir 0x1ED
         [(''.devcontainer'', Dir 0x1ED
           [(''.env.devcontainer'', File 0x1A4 ''DB_NAME=PROJECT_DB_NAME'')]),
          (''config'', Dir 0x1ED [(''config.go'', File 0x1A4 ''package config'')]),
          (''go.mod'', File 0x1A4 (ReplaceAll (goModContent \<lparr>ProjectName = ''demo'', ProjectPath = ''./demo'',
        ModulePath = ''github.com/yourusername/demo'', Database = ''mysql'',
        UseRedis = False, UseRabbitMQ = False\<rparr>) oldModule ''github.com/yourusername/demo''))])])"
  by (simp add: updateModulePaths_def updateModulePaths_fn_def WriteFile_def ReadFile_def
      Clean_def filepath_Join_def cleanStep_def Perm_def pathString_def HasSuffix_def
      ReplaceAll_def oldModule_def)

lemma demo_cleanupFiles:
  "cleanupFiles [''mysql'', ''postgresql'', ''mongodb''] [''mysql'', ''postgresql'', ''mongodb''] \<lparr>ProjectName = ''demo'', ProjectPath = ''./demo'',
        ModulePath = ''github.com/yourusername/demo'', Database = ''mysql'',
        UseRedis = False, UseRabbitMQ = False\<rparr>
     (Dir 0x1ED [(''demo'', Dir 0x1ED
         [(''.devcontainer'', Dir 0x1ED
           [(''.env.devcontainer'', File 0x1A4 ''DB_NAME=PROJECT_DB_NAME'')]),
          (''config'', Dir 0x1ED [(''config.go'', File 0x1A4 ''package config'')]),
          (''go.mod'', File 0x1A4 (ReplaceAll (goModContent \<lparr>ProjectName = ''demo'', ProjectPath = ''./demo'',
        ModulePath = ''github.com/yourusername/demo'', Database = ''mysql'',
        UseRedis = False, UseRabbitMQ = False\<rparr>) oldModule ''github.com/yourusername/demo''))])])
   = Inr (Dir 0x1ED [(''demo'', Dir 0x1ED
         [(''.devcontainer'', Dir 0x1ED
           [(''.env.devcontainer'', File 0x1A4 ''DB_NAME=PROJECT_DB_NAME'')]),
          (''config'', Dir 0x1ED [(''config.go'', File 0x1A4 ''package config'')]),
          (''go.mod'', File 0x1A4 (ReplaceAll (goModContent \<lparr>ProjectName = ''demo'', ProjectPath = ''./demo'',
        ModulePath = ''github.com/yourusername/demo'', Database = ''mysql'',
        UseRedis = False, UseRabbitMQ = False\<rparr>) oldModule ''github.com/yourusername/demo''))])])"
  by (simp add: cleanupFiles_def dbConfigs_def dbRepos_def Remove_def RemoveAll_def ignoreErr_def
      Clean_def filepath_Join_def cleanStep_def Let_def)

lemma demo_generateDevcontainer:
  "generateDevcontainer mapLower 0x12 \<lparr>ProjectName = ''demo'', ProjectPath = ''./demo'',
        ModulePath = ''github.com/yourusername/demo'', Database = ''mysql'',
        UseRedis = False, UseRabbitMQ = False\<rparr>
     (Dir 0x1ED [(''demo'', Dir 0x1ED
         [(''.devcontainer'', Dir 0x1ED
           [(''.env.devcontainer'', File 0x1A4 ''DB_NAME=PROJECT_DB_NAME'')]),
          (''config'', Dir 0x1ED [(''config.go'', File 0x1A4 ''package config'')]),
          (''go.mod'', File 0x1A4 (ReplaceAll (goModContent \<lparr>ProjectName = ''demo'', ProjectPath = ''./demo'',
        ModulePath = ''github.com/yourusername/demo'', Database = ''mysql'',
        UseRedis = False, UseRabbitMQ = False\<rparr>) oldModule ''github.com/yourusername/demo''))])])
   = Inr (Dir 0x1ED [(''demo'', Dir 0x1ED
         [(''.devcontainer'', Dir 0x1ED
           [(''.env.devcontainer'', File 0x1A4 ''DB_NAME=PROJECT_DB_NAME''),
            (''docker-compose.yml'', File 0x1A4 (generateDevcontainerDockerCompose mapLower \<lparr>ProjectName = ''demo'', ProjectPath = ''./demo'',
        ModulePath = ''github.com/yourusername/demo'', Database = ''mysql'',
        UseRedis = False, UseRabbitMQ = False\<rparr>))]),
          (''config'', Dir 0x1ED [(''config.go'', File 0x1A4 ''package config'')]),
          (''go.mod'', File 0x1A4 (ReplaceAll (goModContent \<lparr>ProjectName = ''demo'', ProjectPath = ''./demo'',
        ModulePath = ''github.com/yourusername/demo'', Database = ''mysql'',
        UseRedis = False, UseRabbitMQ = False\<rparr>) oldModule ''github.com/yourusername/demo''))])])"
  by (simp add: generateDevcontainer_def WriteFile_def Clean_def filepath_Join_def cleanStep_def
      Perm_def Let_def)

lemma demo_updateConfigFiles:
  "updateConfigFiles 0x12 \<lparr>ProjectName = ''demo'', ProjectPath = ''./demo'',
        ModulePath = ''github.com/yourusername/demo'', Database = ''mysql'',
        UseRedis = False, UseRabbitMQ = False\<rparr>
     (Dir 0x1ED [(''demo'', Dir 0x1ED
         [(''.devcontainer'', Dir 0x1ED
           [(''.env.devcontainer'', File 0x1A4 ''DB_NAME=PROJECT_DB_NAME''),
            (''docker-compose.yml'', File 0x1A4 (generateDevcontainerDockerCompose mapLower \<lparr>ProjectName = ''demo'', ProjectPath = ''./demo'',
        ModulePath = ''github.com/yourusername/demo'', Database = ''mysql'',
        UseRedis = False, UseRabbitMQ = False\<rparr>))]),
          (''config'', Dir 0x1ED [(''config.go'', File 0x1A4 ''package config'')]),
          (''go.mod'', File 0x1A4 (ReplaceAll (goModContent \<lparr>ProjectName = ''demo'', ProjectPath = ''./demo'',
        ModulePath = ''github.com/yourusername/demo'', Database = ''mysql'',
        UseRedis = False, UseRabbitMQ = False\<rparr>) oldModule ''github.com/yourusername/demo''))])])
   = Inr (Dir 0x1ED [(''demo'', Dir 0x1ED
         [(''.devcontainer'', Dir 0x1ED
           [(''.env.devcontainer'', File 0x1A4 ''DB_NAME=PROJECT_DB_NAME''),
            (''docker-compose.yml'', File 0x1A4 (generateDevcontainerDockerCompose mapLower \<lparr>ProjectName = ''demo'', ProjectPath = ''./demo'',
        ModulePath = ''github.com/yourusername/demo'', Database = ''mysql'',
        UseRedis = False, UseRabbitMQ = False\<rparr>))]),
          (''config'', Dir 0x1ED [(''config.go'', File 0x1A4 ''package config'')]),
          (''go.mod'', File 0x1A4 (ReplaceAll (goModContent \<lparr>ProjectName = ''demo'', ProjectPath = ''./demo'',
        ModulePath = ''github.com/yourusername/demo'', Database = ''mysql'',
        UseRedis = False, UseRabbitMQ = False\<rparr>) oldModule ''github.com/yourusername/demo''))])])"
  by (simp add: updateConfigFiles_def removeLines_def WriteFile_def ReadFile_def Clean_def
      filepath_Join_def cleanStep_def Perm_def Let_def)

lemma demo_updateEnvFiles:
  "updateEnvFiles mapLower 0x12 \<lparr>ProjectName = ''demo'', ProjectPath = ''./demo'',
        ModulePath = ''github.com/yourusername/demo'', Database = ''mysql'',
        UseRedis = False, UseRabbitMQ = False\<rparr>
     (Dir 0x1ED [(''demo'', Dir 0x1ED
         [(''.devcontainer'', Dir 0x1ED
           [(''.env.devcontainer'', File 0x1A4 ''DB_NAME=PROJECT_DB_NAME''),
            (''docker-compose.yml'', File 0x1A4 (generateDevcontainerDockerCompose mapLower \<lparr>ProjectName = ''demo'', ProjectPath = ''./demo'',
        ModulePath = ''github.com/yourusername/demo'', Database = ''mysql'',
        UseRedis = False, UseRabbitMQ = False\<rparr>))]),
          (''config'', Dir 0x1ED [(''config.go'', File 0x1A4 ''package config'')]),
          (''go.mod'', File 0x1A4 (ReplaceAll (goModContent \<lparr>ProjectName = ''demo'', ProjectPath = ''./demo'',
        ModulePath = ''github.com/yourusername/demo'', Database = ''mysql'',
        UseRedis = False, UseRabbitMQ = False\<rparr>) oldModule ''github.com/yourusername/demo''))])])
   = Inr (Dir 0x1ED [(''demo'', Dir 0x1ED
         [(''.devcontainer'', Dir 0x1ED
           [(''.env.devcontainer'', File 0x1A4 ''DB_NAME=demo''),
            (''docker-compose.yml'', File 0x1A4 (generateDevcontainerDockerCompose mapLower \<lparr>ProjectName = ''demo'', ProjectPath = ''./demo'',
        ModulePath = ''github.com/yourusername/demo'', Database = ''mysql'',
        UseRedis = False, UseRabbitMQ = False\<rparr>))]),
          (''config'', Dir 0x1ED [(''config.go'', File 0x1A4 ''package config'')]),
          (''go.mod'', File 0x1A4 (ReplaceAll (goModContent \<lparr>ProjectName = ''demo'', ProjectPath = ''./demo'',
        ModulePath = ''github.com/yourusername/demo'', Database = ''mysql'',
        UseRedis = False, UseRabbitMQ = False\<rparr>) oldModule ''github.com/yourusername/demo''))])])"
  by (simp add: updateEnvFiles_def sanitizeName_def ToLower_def isASCII_def less_char_def
      lowerByte_def less_eq_char_def ReplaceAll_def WriteFile_def ReadFile_def Clean_def
      filepath_Join_def cleanStep_def Perm_def Let_def)

lemma demo_createProject:
  "createProject mapLower 0x12 (Some (Dir 0x1ED
        [(''.devcontainer'', Dir 0x1ED
           [(''.env.devcontainer'', File 0x1A4 ''DB_NAME=PROJECT_DB_NAME'')]),
         (''config'', Dir 0x1ED [(''config.go'', File 0x1A4 ''package config'')])]))
      [''mysql'', ''postgresql'', ''mongodb''] [''mysql'', ''postgresql'', ''mongodb'']
      \<lparr>ProjectName = ''demo'', ProjectPath = ''./demo'',
        ModulePath = ''github.com/yourusername/demo'', Database = ''mysql'',
        UseRedis = False, UseRabbitMQ = False\<rparr>
      (Dir 0x1ED [])
   = Inr (Dir 0x1ED [(''demo'', Dir 0x1ED
         [(''.devcontainer'', Dir 0x1ED
           [(''.env.devcontainer'', File 0x1A4 ''DB_NAME=demo''),
            (''docker-compose.yml'', File 0x1A4 (generateDevcontainerDockerCompose mapLower \<lparr>ProjectName = ''demo'', ProjectPath = ''./demo'',
        ModulePath = ''github.com/yourusername/demo'', Database = ''mysql'',
        UseRedis = False, UseRabbitMQ = False\<rparr>))]),
          (''config'', Dir 0x1ED [(''config.go'', File 0x1A4 ''package config'')]),
          (''go.mod'', File 0x1A4 (ReplaceAll (goModContent \<lparr>ProjectName = ''demo'', ProjectPath = ''./demo'',
        ModulePath = ''github.com/yourusername/demo'', Database = ''mysql'',
        UseRedis = False, UseRabbitMQ = False\<rparr>) oldModule ''github.com/yourusername/demo''))])])"
  unfolding createProject_def
  by (simp only: ProjectConfig.simps list.simps if_False demo_MkdirAll andThen_def sum.case
      demo_copyTemplate demo_createGoMod demo_updateModulePaths demo_cleanupFiles
      demo_generateDevcontainer demo_updateConfigFiles demo_updateEnvFiles)

text \<open>
  Claim C5: in every run in which the answer to the final confirmation is \<open>n\<close>, nothing is
  written. The program does not keep to it when its input comes through a pipe or from a
  file. \<^verbatim>\<open>collectConfiguration\<close> and \<^verbatim>\<open>confirm\<close> each open a \<^verbatim>\<open>bufio.Reader\<close> on the
  standard input; the first takes the whole input into its buffer, the answer to the
  confirmation with it, and \<^verbatim>\<open>confirm\<close> reads an empty line at the end of the input, which
  it takes for a yes. With the seven answers arriving in one piece, the last of them \<open>n\<close>,
  the run creates the project in an empty directory. The same answers arriving line by
  line, as they do from a terminal, cancel the run and leave the directory empty.
\<close>

theorem main_piped_n_creates_project:
  "main mapLower 0x12 (Some (Dir 0x1ED
        [(''.devcontainer'', Dir 0x1ED
           [(''.env.devcontainer'', File 0x1A4 ''DB_NAME=PROJECT_DB_NAME'')]),
         (''config'', Dir 0x1ED [(''config.go'', File 0x1A4 ''package config'')])]))
      [''mysql'', ''postgresql'', ''mongodb''] [''mysql'', ''postgresql'', ''mongodb'']
      [''demo\<newline>\<newline>\<newline>1\<newline>n\<newline>n\<newline>n\<newline>'']
      (Dir 0x1ED [])
   = Some (Exit0 (Dir 0x1ED [(''demo'', Dir 0x1ED
         [(''.devcontainer'', Dir 0x1ED
           [(''.env.devcontainer'', File 0x1A4 ''DB_NAME=demo''),
            (''docker-compose.yml'', File 0x1A4 (generateDevcontainerDockerCompose mapLower \<lparr>ProjectName = ''demo'', ProjectPath = ''./demo'',
        ModulePath = ''github.com/yourusername/demo'', Database = ''mysql'',
        UseRedis = False, UseRabbitMQ = False\<rparr>))]),
          (''config'', Dir 0x1ED [(''config.go'', File 0x1A4 ''package config'')]),
          (''go.mod'', File 0x1A4 (ReplaceAll (goModContent \<lparr>ProjectName = ''demo'', ProjectPath = ''./demo'',
        ModulePath = ''github.com/yourusername/demo'', Database = ''mysql'',
        UseRedis = False, UseRabbitMQ = False\<rparr>) oldModule ''github.com/yourusername/demo''))])]))
   \<and> main mapLower 0x12 (Some (Dir 0x1ED
        [(''.devcontainer'', Dir 0x1ED
           [(''.env.devcontainer'', File 0x1A4 ''DB_NAME=PROJECT_DB_NAME'')]),
         (''config'', Dir 0x1ED [(''config.go'', File 0x1A4 ''package config'')])]))
      [''mysql'', ''postgresql'', ''mongodb''] [''mysql'', ''postgresql'', ''mongodb'']
      [''demo\<newline>'', ''\<newline>'', ''\<newline>'', ''1\<newline>'', ''n\<newline>'', ''n\<newline>'', ''n\<newline>'']
      (Dir 0x1ED [])
     = Some (Exit0 (Dir 0x1ED []))"
  by (simp only: main_def piped_collectConfiguration piped_confirm lines_collectConfiguration
      lines_confirm demo_createProject option.case prod.case sum.case not_not if_True if_False
      simp_thms)

section \<open>Walking the project\<close>

lemma HasSuffix_suffix: "HasSuffix s suf \<longleftrightarrow> suffix suf s"
proof
  assume "HasSuffix s suf"
  then have "s = take (length s - length suf) s @ suf"
    by (metis HasSuffix_def append_take_drop_id)
  then show "suffix suf s"
    by (rule suffixI)
next
  assume "suffix suf s"
  then obtain zs where "s = zs @ suf"
    by (rule suffixE)
  then show "HasSuffix s suf"
    by (simp add: HasSuffix_def)
qed

lemma Join_snoc: "q \<noteq> [] \<Longrightarrow> Join (q @ [n]) sep = Join q sep @ sep @ n"
  by (induction q sep rule: Join.induct) simp_all

lemma suffix_behind_separator:
  assumes "c \<notin> set suf"
  shows "suffix suf (a @ c # n) \<longleftrightarrow> suffix suf n"
proof
  assume "suffix suf (a @ c # n)"
  then have "suffix suf ((a @ [c]) @ n)"
    by simp
  then consider "suffix suf n" | xs where "suf = xs @ n" "suffix xs (a @ [c])"
    unfolding suffix_append by blast
  then show "suffix suf n"
  proof cases
    case 1
    then show ?thesis .
  next
    case 2
    with assms have "xs = []"
      by (cases xs rule: rev_cases) auto
    with 2 show ?thesis by simp
  qed
next
  assume "suffix suf n"
  then show "suffix suf (a @ c # n)"
    by (metis suffix_Cons suffix_append)
qed

text \<open>
  The callback tests the suffix on the whole path. A suffix without a separator is decided
  by the last component, the name of the file.
\<close>

lemma HasSuffix_pathString:
  assumes "q \<noteq> []" "CHR ''/'' \<notin> set suf"
  shows "HasSuffix (pathString q) suf \<longleftrightarrow> HasSuffix (last q) suf"
proof (cases "butlast q = []")
  case True
  with assms(1) have "q = [last q]"
    by (metis append_butlast_last_id append_Nil)
  then have "pathString q = last q"
    by (metis Join.simps(2) pathString_def)
  then show ?thesis by simp
next
  case False
  have "pathString q = Join (butlast q @ [last q]) ''/''"
    using assms(1) by (simp add: pathString_def)
  also have "\<dots> = Join (butlast q) ''/'' @ CHR ''/'' # last q"
    using False by (simp add: Join_snoc)
  finally show ?thesis
    using assms(2) by (simp add: HasSuffix_suffix suffix_behind_separator)
qed

lemma WriteFile_Inr:
  assumes "WriteFile umask fs p content perm = Inr fs'"
  obtains f where "alter f fs p = Inr fs'" "\<And>m es. f (Some (Dir m es)) = Inl EISDIR"
    "\<And>m c. f (Some (File m c)) = Inr (Some (File m content))"
    "f None = Inr (Some (File (Perm perm AND NOT umask) content))"
proof
  let ?f = "\<lambda>old. case old of Some (Dir m es) \<Rightarrow> Inl EISDIR
              | Some (File m c) \<Rightarrow> Inr (Some (File m content))
              | None \<Rightarrow> Inr (Some (File (Perm perm AND NOT umask) content))"
  show "alter ?f fs p = Inr fs'"
    using assms by (simp add: WriteFile_def)
qed simp_all

text \<open>Writing a file leaves every other file as it is.\<close>

lemma WriteFile_keeps_file:
  assumes w: "WriteFile umask fs p content perm = Inr fs'"
    and q: "lookup fs q = Some (File m c)" "q \<noteq> p"
  shows "lookup fs' q = Some (File m c)"
proof -
  from w obtain f where a: "alter f fs p = Inr fs'" and d: "\<And>m es. f (Some (Dir m es)) = Inl EISDIR"
    by (rule WriteFile_Inr) auto
  from alter_keeps_file [OF a q] show ?thesis
  proof
    assume "strict_prefix p q"
    then obtain r where r: "q = p @ r" "r \<noteq> []"
      by (auto simp: strict_prefix_def prefix_def)
    with q(1) obtain n where n: "lookup fs p = Some n" "lookup n r = Some (File m c)"
      by (auto simp: lookup_append split: option.splits)
    with r obtain m' es where "n = Dir m' es"
      by (cases n; cases r) auto
    with n d lookup_alter_same [OF a] show ?thesis
      by simp
  qed
qed

text \<open>What every call of the callback keeps, the whole walk keeps.\<close>

lemma walk_invariant:
  "walk fn p n st = Inr st' \<Longrightarrow> (\<And>p n st st'. I st \<Longrightarrow> fn p n st = Inr st' \<Longrightarrow> I st') \<Longrightarrow>
   I st \<Longrightarrow> I st'"
  "walkDir fn p es st = Inr st' \<Longrightarrow> (\<And>p n st st'. I st \<Longrightarrow> fn p n st = Inr st' \<Longrightarrow> I st') \<Longrightarrow>
   I st \<Longrightarrow> I st'"
proof (induction fn p n st and fn p es st arbitrary: st' and st' rule: walk_walkDir.induct)
  case (1 fn p m c st)
  from "1.prems"(2) [OF "1.prems"(3)] "1.prems"(1) show ?case
    by simp
next
  case (2 fn p m es st)
  from "2.prems"(1) obtain st1 where f: "fn p (Dir m es) st = Inr st1"
    and w: "walkDir fn p (sort_key fst es) st1 = Inr st'"
    by (auto split: sum.splits)
  from "2.prems"(2) [OF "2.prems"(3) f] have "I st1" .
  with "2.IH" [OF f w "2.prems"(2)] show ?case
    by simp
next
  case (3 fn p st)
  then show ?case by simp
next
  case (4 fn p name ch es st)
  from "4.prems"(1) obtain st1 where w1: "walk fn (p @ [name]) ch st = Inr st1"
    and w2: "walkDir fn p es st1 = Inr st'"
    by (auto split: sum.splits)
  from "4.IH"(1) [OF w1 "4.prems"(2,3)] have "I st1"
    by simp
  with "4.IH"(2) [OF w1 w2 "4.prems"(2)] show ?case
    by simp
qed

lemma updateModulePaths_fn_keeps:
  assumes "updateModulePaths_fn umask config p info st = Inr st'"
    and "lookup st q = Some (File m c)"
    and "\<not> HasSuffix (pathString q) ''.go''" "\<not> HasSuffix (pathString q) ''.mod''"
  shows "lookup st' q = Some (File m c)"
proof (cases "IsDir info \<or> (\<not> HasSuffix (pathString p) ''.go'' \<and> \<not> HasSuffix (pathString p) ''.mod'')")
  case True
  with assms(1,2) show ?thesis
    by (auto simp: updateModulePaths_fn_def split: if_splits)
next
  case False
  with assms(3,4) have "q \<noteq> p"
    by auto
  moreover from False assms(1) obtain content where
    "WriteFile umask st p (ReplaceAll content oldModule (ModulePath config)) (Mode info) = Inr st'"
    by (auto simp: updateModulePaths_fn_def Let_def split: sum.splits)
  ultimately show ?thesis
    using assms(2) by (auto intro: WriteFile_keeps_file)
qed

text \<open>
  Claim C6: the rewrite of the module path changes only files whose name ends in \<open>.go\<close>
  or \<open>.mod\<close>. For every configuration and every file system on which
  \<^verbatim>\<open>updateModulePaths\<close> succeeds, any other file, anywhere in the file system, has the
  mode and the content afterwards that it had before.
\<close>

theorem updateModulePaths_frame:
  assumes "updateModulePaths umask config fs = Inr fs'"
    and "lookup fs q = Some (File m c)" "q \<noteq> []"
    and "\<not> HasSuffix (last q) ''.go''" "\<not> HasSuffix (last q) ''.mod''"
  shows "lookup fs' q = Some (File m c)"
proof -
  from assms(3-5) have s: "\<not> HasSuffix (pathString q) ''.go''" "\<not> HasSuffix (pathString q) ''.mod''"
    by (simp_all add: HasSuffix_pathString)
  from assms(1) obtain n where
    w: "walk (updateModulePaths_fn umask config) (Clean (ProjectPath config)) n fs = Inr fs'"
    by (auto simp: updateModulePaths_def split: option.splits if_splits)
  show ?thesis
    by (rule walk_invariant(1) [where I = "\<lambda>st. lookup st q = Some (File m c)", OF w _ assms(2)])
       (rule updateModulePaths_fn_keeps [OF _ _ s])
qed

theorem updateModulePaths_frame_witness:
  "updateModulePaths 0x12
     \<lparr>ProjectName = ''demo'', ProjectPath = ''./demo'', ModulePath = ''example.com/demo'',
        Database = ''mysql'', UseRedis = True, UseRabbitMQ = False\<rparr>
     (Dir 0x1ED [(''demo'', Dir 0x1ED
        [(''main.go'', File 0x1A4 ''import github.com/rahmatrdn/go-skeleton/config''),
         (''README.md'', File 0x1A4 ''see github.com/rahmatrdn/go-skeleton''),
         (''go.mod'', File 0x1A4 ''module github.com/rahmatrdn/go-skeleton'')])])
   = Inr (Dir 0x1ED [(''demo'', Dir 0x1ED
        [(''main.go'', File 0x1A4 ''import example.com/demo/config''),
         (''README.md'', File 0x1A4 ''see github.com/rahmatrdn/go-skeleton''),
         (''go.mod'', File 0x1A4 ''module example.com/demo'')])])
   \<and> \<not> HasSuffix (last [''demo'', ''README.md'']) ''.go''
   \<and> \<not> HasSuffix (last [''demo'', ''README.md'']) ''.mod''
   \<and> lookup (Dir 0x1ED [(''demo'', Dir 0x1ED
        [(''main.go'', File 0x1A4 ''import example.com/demo/config''),
         (''README.md'', File 0x1A4 ''see github.com/rahmatrdn/go-skeleton''),
         (''go.mod'', File 0x1A4 ''module example.com/demo'')])]) [''demo'', ''README.md'']
     = Some (File 0x1A4 ''see github.com/rahmatrdn/go-skeleton'')"
proof -
  have e: "updateModulePaths 0x12
     \<lparr>ProjectName = ''demo'', ProjectPath = ''./demo'', ModulePath = ''example.com/demo'',
        Database = ''mysql'', UseRedis = True, UseRabbitMQ = False\<rparr>
     (Dir 0x1ED [(''demo'', Dir 0x1ED
        [(''main.go'', File 0x1A4 ''import github.com/rahmatrdn/go-skeleton/config''),
         (''README.md'', File 0x1A4 ''see github.com/rahmatrdn/go-skeleton''),
         (''go.mod'', File 0x1A4 ''module github.com/rahmatrdn/go-skeleton'')])])
   = Inr (Dir 0x1ED [(''demo'', Dir 0x1ED
        [(''main.go'', File 0x1A4 ''import example.com/demo/config''),
         (''README.md'', File 0x1A4 ''see github.com/rahmatrdn/go-skeleton''),
         (''go.mod'', File 0x1A4 ''module example.com/demo'')])])"
    by code_simp
  have l: "lookup (Dir 0x1ED [(''demo'', Dir 0x1ED
        [(''main.go'', File 0x1A4 ''import github.com/rahmatrdn/go-skeleton/config''),
         (''README.md'', File 0x1A4 ''see github.com/rahmatrdn/go-skeleton''),
         (''go.mod'', File 0x1A4 ''module github.com/rahmatrdn/go-skeleton'')])]) [''demo'', ''README.md'']
     = Some (File 0x1A4 ''see github.com/rahmatrdn/go-skeleton'')"
    by simp
  have s: "\<not> HasSuffix (last [''demo'', ''README.md'']) ''.go''"
    "\<not> HasSuffix (last [''demo'', ''README.md'']) ''.mod''"
    by (simp_all add: HasSuffix_def)
  from updateModulePaths_frame [OF e l _ s] e s show ?thesis
    by simp
qed

section \<open>The database name\<close>

lemma Contains_here: "HasPrefix s sub \<Longrightarrow> Contains s sub"
  by (cases s) (simp_all add: HasPrefix_def)

lemma Contains_appendR: "Contains t sub \<Longrightarrow> Contains (s @ t) sub"
  by (induction s) simp_all

lemma HasPrefix_appendI: "HasPrefix s p \<Longrightarrow> HasPrefix (s @ t) p"
  by (simp add: HasPrefix_def)

lemma Contains_appendL: "Contains s sub \<Longrightarrow> Contains (s @ t) sub"
proof (induction s)
  case Nil
  then have "sub = []" by simp
  then show ?case by (simp add: Contains_here)
next
  case (Cons c s)
  from Cons.prems consider "HasPrefix (c # s) sub" | "Contains s sub"
    by auto
  then show ?case
  proof cases
    case 1
    then have "HasPrefix ((c # s) @ t) sub"
      by (rule HasPrefix_appendI)
    then show ?thesis by simp
  next
    case 2
    with Cons.IH show ?thesis by simp
  qed
qed

lemma HasPrefix_append_cancel [simp]: "HasPrefix (a @ s) (a @ p) \<longleftrightarrow> HasPrefix s p"
  by (simp add: HasPrefix_def)

lemma HasPrefix_append_self: "HasPrefix (p @ t) p"
  by (simp add: HasPrefix_def)

lemma sanitizeName_map:
  "sanitizeName mapLower name
     = map (\<lambda>c. if c = CHR ''-'' then CHR ''_'' else c) (ToLower mapLower name)"
  by (simp add: sanitizeName_def ReplaceAll_def replaceFrom_single)

lemma lowerByte_not_upper: "\<not> (CHR ''A'' \<le> lowerByte c \<and> lowerByte c \<le> CHR ''Z'')"
  unfolding less_eq_char_def of_char_lowerByte by auto

lemma lowerByte_idem: "lowerByte (lowerByte c) = lowerByte c"
  unfolding char_eq_nat [of "lowerByte (lowerByte c)"] of_char_lowerByte by auto

lemma lowerByte_underscore: "lowerByte CHR ''_'' = CHR ''_''"
  by (simp add: lowerByte_def less_eq_char_def)

lemma lowerByte_no_upper: "\<not> (CHR ''A'' \<le> c \<and> c \<le> CHR ''Z'') \<Longrightarrow> lowerByte c = c"
  by (auto simp: lowerByte_def)

lemma lowerByte_hyphen:
  "lowerByte (if c = CHR ''-'' then CHR ''_'' else c)
   = (if lowerByte c = CHR ''-'' then CHR ''_'' else lowerByte c)"
proof -
  have "lowerByte c = CHR ''-'' \<longleftrightarrow> c = CHR ''-''"
    unfolding char_eq_nat [of _ "CHR ''-''"] of_char_lowerByte by auto
  then show ?thesis
    by (simp add: lowerByte_underscore)
qed

lemma isASCII_hyphen: "isASCII (map (\<lambda>c. if c = CHR ''-'' then CHR ''_'' else c) s) = isASCII s"
proof -
  have "(if c = CHR ''-'' then CHR ''_'' else c) < CHR 0x80 \<longleftrightarrow> c < CHR 0x80" for c
    by (simp add: less_char_def)
  then show ?thesis
    by (induction s) (simp_all add: isASCII_def)
qed

text \<open>
  The bytes of the sanitized name. For a name with bytes above 127 it is asked of
  \<^verbatim>\<open>strings.Map(unicode.ToLower, s)\<close> that it returns no upper-case letter of ASCII.
\<close>

lemma sanitizeName_chars:
  assumes "isASCII name
      \<or> (\<forall>s. \<not> isASCII s \<longrightarrow> (\<forall>c \<in> set (mapLower s). \<not> (CHR ''A'' \<le> c \<and> c \<le> CHR ''Z'')))"
    and "c \<in> set (sanitizeName mapLower name)"
  shows "c \<noteq> CHR ''-'' \<and> \<not> (CHR ''A'' \<le> c \<and> c \<le> CHR ''Z'')"
proof -
  from assms(2) obtain d where d: "d \<in> set (ToLower mapLower name)"
    and c: "c = (if d = CHR ''-'' then CHR ''_'' else d)"
    unfolding sanitizeName_map set_map by blast
  have "\<not> (CHR ''A'' \<le> d \<and> d \<le> CHR ''Z'')"
  proof (cases "isASCII name")
    case True
    with d obtain e where "d = lowerByte e"
      by (auto simp: ToLower_def)
    then show ?thesis
      using lowerByte_not_upper [of e] by simp
  next
    case False
    with d assms(1) show ?thesis
      by (auto simp: ToLower_def)
  qed
  with c show ?thesis
    by (auto simp: less_eq_char_def)
qed

text \<open>
  Sanitizing twice. For a name with bytes above 127 it is asked of
  \<^verbatim>\<open>strings.Map(unicode.ToLower, s)\<close> that it returns no upper-case letter of ASCII, that
  lowering what is lowered changes nothing, and that it takes no notice of a hyphen being
  an underscore.
\<close>

lemma sanitizeName_idem:
  assumes "isASCII name
      \<or> ((\<forall>s. \<not> isASCII s \<longrightarrow> (\<forall>c \<in> set (mapLower s). \<not> (CHR ''A'' \<le> c \<and> c \<le> CHR ''Z'')))
         \<and> (\<forall>s. \<not> isASCII s \<longrightarrow> \<not> isASCII (mapLower s) \<longrightarrow> mapLower (mapLower s) = mapLower s)
         \<and> (\<forall>s. \<not> isASCII s \<longrightarrow>
               mapLower (map (\<lambda>c. if c = CHR ''-'' then CHR ''_'' else c) s)
               = map (\<lambda>c. if c = CHR ''-'' then CHR ''_'' else c) (mapLower s)))"
  shows "sanitizeName mapLower (sanitizeName mapLower name) = sanitizeName mapLower name"
proof -
  let ?h = "\<lambda>c. if c = CHR ''-'' then CHR ''_'' else c"
  let ?t = "ToLower mapLower name"
  have hh: "map ?h (map ?h s) = map ?h s" for s
    by (induction s) simp_all
  have low: "map lowerByte (map ?h s) = map ?h s"
    if "\<forall>c \<in> set s. \<not> (CHR ''A'' \<le> c \<and> c \<le> CHR ''Z'')" for s
    using that by (induction s) (simp_all add: lowerByte_no_upper lowerByte_underscore)
  have "ToLower mapLower (map ?h ?t) = map ?h ?t"
  proof (cases "isASCII name")
    case True
    then have t: "?t = map lowerByte name"
      by (simp add: ToLower_def)
    have "isASCII (map ?h ?t)"
      unfolding isASCII_hyphen t using True by (simp add: isASCII_lower)
    moreover have "\<forall>c \<in> set ?t. \<not> (CHR ''A'' \<le> c \<and> c \<le> CHR ''Z'')"
      unfolding t using lowerByte_not_upper by auto
    ultimately have "isASCII (map ?h ?t)" and "map lowerByte (map ?h ?t) = map ?h ?t"
      by (simp_all only: low)
    then show ?thesis
      by (simp only: ToLower_def [of mapLower "map ?h ?t"] if_True)
  next
    case False
    then have t: "?t = mapLower name"
      by (simp add: ToLower_def)
    from False assms have up: "\<forall>c \<in> set ?t. \<not> (CHR ''A'' \<le> c \<and> c \<le> CHR ''Z'')"
      unfolding t by blast
    show ?thesis
    proof (cases "isASCII ?t")
      case True
      then have "isASCII (map ?h ?t)"
        by (simp add: isASCII_hyphen)
      moreover from up have "map lowerByte (map ?h ?t) = map ?h ?t"
        by (rule low)
      ultimately show ?thesis
        by (simp only: ToLower_def [of mapLower "map ?h ?t"] if_True)
    next
      case nonascii: False
      then have "\<not> isASCII (map ?h ?t)"
        by (simp add: isASCII_hyphen)
      then have "ToLower mapLower (map ?h ?t) = mapLower (map ?h ?t)"
        by (simp add: ToLower_def)
      also from nonascii assms False have "\<dots> = map ?h (mapLower ?t)"
        by blast
      also from nonascii assms False have "mapLower ?t = ?t"
        unfolding t by blast
      finally show ?thesis .
    qed
  qed
  then show ?thesis
    by (simp add: sanitizeName_map hh)
qed

text \<open>Lowering the bytes one by one has these three properties.\<close>

lemma bytewise_sanitize:
  "(\<forall>s. \<not> isASCII s \<longrightarrow> (\<forall>c \<in> set (map lowerByte s). \<not> (CHR ''A'' \<le> c \<and> c \<le> CHR ''Z'')))
   \<and> (\<forall>s. \<not> isASCII s \<longrightarrow> \<not> isASCII (map lowerByte s) \<longrightarrow>
         map lowerByte (map lowerByte s) = map lowerByte s)
   \<and> (\<forall>s. \<not> isASCII s \<longrightarrow>
         map lowerByte (map (\<lambda>c. if c = CHR ''-'' then CHR ''_'' else c) s)
         = map (\<lambda>c. if c = CHR ''-'' then CHR ''_'' else c) (map lowerByte s))"
  using lowerByte_not_upper by (auto simp: lowerByte_idem lowerByte_hyphen)

lemma compose_mysql:
  assumes db: "Database config = ''mysql''"
  shows "Contains (generateDevcontainerDockerCompose mapLower config)
           (''      MYSQL_DATABASE: '' @ sanitizeName mapLower (ProjectName config) @ [CHR 0x0A] @
            ''      MYSQL_USER: '' @ sanitizeName mapLower (ProjectName config) @ [CHR 0x0A] @
            ''      MYSQL_PASSWORD: '' @ sanitizeName mapLower (ProjectName config) @ [CHR 0x0A])"
  unfolding generateDevcontainerDockerCompose_def Let_def
  apply (rule Contains_appendL, rule Contains_appendL, rule Contains_appendL,
         rule Contains_appendL, rule Contains_appendL, rule Contains_appendL,
         rule Contains_appendR)
  apply (simp only: db if_True simp_thms)
  apply (rule Contains_appendR, rule Contains_appendR, rule Contains_appendR,
         rule Contains_appendR, rule Contains_appendR, rule Contains_appendR)
  apply (rule Contains_here)
  apply simp
  done

lemma compose_postgresql:
  assumes db: "Database config = ''postgresql''"
  shows "Contains (generateDevcontainerDockerCompose mapLower config)
           (''      POSTGRES_DB: '' @ sanitizeName mapLower (ProjectName config) @ [CHR 0x0A])"
  unfolding generateDevcontainerDockerCompose_def Let_def
  apply (rule Contains_appendL, rule Contains_appendL, rule Contains_appendL,
         rule Contains_appendL, rule Contains_appendL, rule Contains_appendL,
         rule Contains_appendR)
  apply (simp only: db if_True if_False simp_thms list.inject char.inject)
  apply (rule Contains_appendR, rule Contains_appendR, rule Contains_appendR,
         rule Contains_appendR, rule Contains_appendR, rule Contains_appendR,
         rule Contains_appendR)
  apply (rule Contains_here)
  apply simp
  done

lemma compose_mongodb:
  assumes db: "Database config = ''mongodb''"
  shows "Contains (generateDevcontainerDockerCompose mapLower config)
           (''      MONGO_INITDB_DATABASE: '' @ sanitizeName mapLower (ProjectName config) @ [CHR 0x0A])"
  unfolding generateDevcontainerDockerCompose_def Let_def
  apply (rule Contains_appendL, rule Contains_appendL, rule Contains_appendL,
         rule Contains_appendL, rule Contains_appendL, rule Contains_appendL,
         rule Contains_appendR)
  apply (simp only: db if_True if_False simp_thms list.inject char.inject)
  apply (rule Contains_appendR, rule Contains_appendR, rule Contains_appendR,
         rule Contains_appendR, rule Contains_appendR)
  apply (rule Contains_here)
  apply simp
  done

lemma WriteFile_existing:
  assumes "lookup fs p = Some (File m c)" "p \<noteq> []"
  shows "\<exists>fs'. WriteFile umask fs p content perm = Inr fs' \<and> lookup fs' p = Some (File m content)"
proof -
  let ?f = "\<lambda>old. case old of Some (Dir m es) \<Rightarrow> Inl EISDIR
              | Some (File m c) \<Rightarrow> Inr (Some (File m content))
              | None \<Rightarrow> Inr (Some (File (Perm perm AND NOT umask) content))"
  from assms lookup_butlast_Dir obtain m' es' where "lookup fs (butlast p) = Some (Dir m' es')"
    by blast
  moreover have "?f (lookup fs p) = Inr (Some (File m content))"
    using assms by simp
  ultimately obtain fs' where a: "alter ?f fs p = Inr fs'"
    using alter_succeeds [OF assms(2), of fs m' es' ?f] by blast
  from lookup_alter_same [OF a] assms have "lookup fs' p = Some (File m content)"
    by simp
  with a show ?thesis
    by (simp add: WriteFile_def)
qed

lemma updateEnvFiles_content:
  assumes "lookup fs (Clean (ProjectPath config) @ [''.devcontainer'', ''.env.devcontainer''])
           = Some (File m c)"
  shows "\<exists>fs'. updateEnvFiles mapLower umask config fs = Inr fs'
           \<and> lookup fs' (Clean (ProjectPath config) @ [''.devcontainer'', ''.env.devcontainer''])
             = Some (File m (ReplaceAll c ''PROJECT_DB_NAME'' (sanitizeName mapLower (ProjectName config))))"
  using assms WriteFile_existing [OF assms, of umask
      "ReplaceAll c ''PROJECT_DB_NAME'' (sanitizeName mapLower (ProjectName config))" "0x1A4"]
  by (simp add: updateEnvFiles_def Let_def Join_literals ReadFile_def)

text \<open>
  Claim C10: for every project name, the database name that goes into the compose document
  and in the place of \<open>PROJECT_DB_NAME\<close> in \<^verbatim>\<open>.devcontainer/.env.devcontainer\<close> is the
  project name in lower case, as \<^verbatim>\<open>strings.ToLower\<close> returns it, with every \<open>-\<close> replaced
  by \<open>_\<close>; for a name of ASCII bytes that is the name with the bytes \<open>A\<close> to \<open>Z\<close> lowered.
  It holds no hyphen and no upper-case ASCII letter, and sanitizing it again changes
  nothing. For a name of ASCII bytes nothing is asked of the library. For a name with other
  bytes three facts about \<^verbatim>\<open>strings.Map(unicode.ToLower, s)\<close> are asked: it returns no
  upper-case letter of ASCII, lowering what is lowered changes nothing, and it takes no
  notice of a hyphen being an underscore.
\<close>

theorem sanitizeName_database_name:
  assumes "isASCII (ProjectName config)
      \<or> ((\<forall>s. \<not> isASCII s \<longrightarrow> (\<forall>c \<in> set (mapLower s). \<not> (CHR ''A'' \<le> c \<and> c \<le> CHR ''Z'')))
         \<and> (\<forall>s. \<not> isASCII s \<longrightarrow> \<not> isASCII (mapLower s) \<longrightarrow> mapLower (mapLower s) = mapLower s)
         \<and> (\<forall>s. \<not> isASCII s \<longrightarrow>
               mapLower (map (\<lambda>c. if c = CHR ''-'' then CHR ''_'' else c) s)
               = map (\<lambda>c. if c = CHR ''-'' then CHR ''_'' else c) (mapLower s)))"
  shows "sanitizeName mapLower (ProjectName config)
     = map (\<lambda>c. if c = CHR ''-'' then CHR ''_'' else c) (ToLower mapLower (ProjectName config))
   \<and> (isASCII (ProjectName config) \<longrightarrow>
        sanitizeName mapLower (ProjectName config)
        = map (\<lambda>c. if c = CHR ''-'' then CHR ''_'' else c) (map lowerByte (ProjectName config)))
   \<and> (\<forall>c \<in> set (sanitizeName mapLower (ProjectName config)).
         c \<noteq> CHR ''-'' \<and> \<not> (CHR ''A'' \<le> c \<and> c \<le> CHR ''Z''))
   \<and> sanitizeName mapLower (sanitizeName mapLower (ProjectName config))
     = sanitizeName mapLower (ProjectName config)
   \<and> (Database config = ''mysql'' \<longrightarrow>
        Contains (generateDevcontainerDockerCompose mapLower config)
          (''      MYSQL_DATABASE: '' @ sanitizeName mapLower (ProjectName config) @ [CHR 0x0A] @
           ''      MYSQL_USER: '' @ sanitizeName mapLower (ProjectName config) @ [CHR 0x0A] @
           ''      MYSQL_PASSWORD: '' @ sanitizeName mapLower (ProjectName config) @ [CHR 0x0A]))
   \<and> (Database config = ''postgresql'' \<longrightarrow>
        Contains (generateDevcontainerDockerCompose mapLower config)
          (''      POSTGRES_DB: '' @ sanitizeName mapLower (ProjectName config) @ [CHR 0x0A]))
   \<and> (Database config = ''mongodb'' \<longrightarrow>
        Contains (generateDevcontainerDockerCompose mapLower config)
          (''      MONGO_INITDB_DATABASE: '' @ sanitizeName mapLower (ProjectName config) @ [CHR 0x0A]))
   \<and> (lookup fs (Clean (ProjectPath config) @ [''.devcontainer'', ''.env.devcontainer''])
          = Some (File m c) \<longrightarrow>
        (\<exists>fs'. updateEnvFiles mapLower umask config fs = Inr fs'
           \<and> lookup fs' (Clean (ProjectPath config) @ [''.devcontainer'', ''.env.devcontainer''])
             = Some (File m (ReplaceAll c ''PROJECT_DB_NAME''
                              (sanitizeName mapLower (ProjectName config))))))"
proof -
  have n1: "sanitizeName mapLower (ProjectName config)
     = map (\<lambda>c. if c = CHR ''-'' then CHR ''_'' else c) (ToLower mapLower (ProjectName config))"
    by (rule sanitizeName_map)
  have n1a: "isASCII (ProjectName config) \<longrightarrow>
        sanitizeName mapLower (ProjectName config)
        = map (\<lambda>c. if c = CHR ''-'' then CHR ''_'' else c) (map lowerByte (ProjectName config))"
    by (simp add: sanitizeName_map ToLower_def)
  from assms have up: "isASCII (ProjectName config)
      \<or> (\<forall>s. \<not> isASCII s \<longrightarrow> (\<forall>c \<in> set (mapLower s). \<not> (CHR ''A'' \<le> c \<and> c \<le> CHR ''Z'')))"
    by blast
  have n2: "\<forall>c \<in> set (sanitizeName mapLower (ProjectName config)).
         c \<noteq> CHR ''-'' \<and> \<not> (CHR ''A'' \<le> c \<and> c \<le> CHR ''Z'')"
    by (rule ballI) (rule sanitizeName_chars [OF up])
  have n3: "sanitizeName mapLower (sanitizeName mapLower (ProjectName config))
      = sanitizeName mapLower (ProjectName config)"
    using assms by (rule sanitizeName_idem)
  have n4: "Database config = ''mysql'' \<longrightarrow>
        Contains (generateDevcontainerDockerCompose mapLower config)
          (''      MYSQL_DATABASE: '' @ sanitizeName mapLower (ProjectName config) @ [CHR 0x0A] @
           ''      MYSQL_USER: '' @ sanitizeName mapLower (ProjectName config) @ [CHR 0x0A] @
           ''      MYSQL_PASSWORD: '' @ sanitizeName mapLower (ProjectName config) @ [CHR 0x0A])"
    by (rule impI) (rule compose_mysql)
  have n5: "Database config = ''postgresql'' \<longrightarrow>
        Contains (generateDevcontainerDockerCompose mapLower config)
          (''      POSTGRES_DB: '' @ sanitizeName mapLower (ProjectName config) @ [CHR 0x0A])"
    by (rule impI) (rule compose_postgresql)
  have n6: "Database config = ''mongodb'' \<longrightarrow>
        Contains (generateDevcontainerDockerCompose mapLower config)
          (''      MONGO_INITDB_DATABASE: '' @ sanitizeName mapLower (ProjectName config) @ [CHR 0x0A])"
    by (rule impI) (rule compose_mongodb)
  have n7: "lookup fs (Clean (ProjectPath config) @ [''.devcontainer'', ''.env.devcontainer''])
          = Some (File m c) \<longrightarrow>
        (\<exists>fs'. updateEnvFiles mapLower umask config fs = Inr fs'
           \<and> lookup fs' (Clean (ProjectPath config) @ [''.devcontainer'', ''.env.devcontainer''])
             = Some (File m (ReplaceAll c ''PROJECT_DB_NAME''
                              (sanitizeName mapLower (ProjectName config)))))"
    by (rule impI) (rule updateEnvFiles_content)
  from n1 n1a n2 n3 n4 n5 n6 n7 show ?thesis
    by (intro conjI)
qed

theorem sanitizeName_database_name_witness:
  "sanitizeName (map lowerByte) ''My-App'' = ''my_app''
   \<and> Contains (generateDevcontainerDockerCompose (map lowerByte)
         \<lparr>ProjectName = ''My-App'', ProjectPath = ''./demo'', ModulePath = ''example.com/demo'',
            Database = ''postgresql'', UseRedis = False, UseRabbitMQ = False\<rparr>)
        (''      POSTGRES_DB: my_app'' @ [CHR 0x0A])
   \<and> lookup (Dir 0x1ED [(''demo'', Dir 0x1ED [(''.devcontainer'', Dir 0x1ED
          [(''.env.devcontainer'', File 0x1A4 ''DB_NAME=PROJECT_DB_NAME'')])])])
        [''demo'', ''.devcontainer'', ''.env.devcontainer'']
      = Some (File 0x1A4 ''DB_NAME=PROJECT_DB_NAME'')
   \<and> (\<exists>fs'. updateEnvFiles (map lowerByte) 0x12
          \<lparr>ProjectName = ''My-App'', ProjectPath = ''./demo'', ModulePath = ''example.com/demo'',
             Database = ''postgresql'', UseRedis = False, UseRabbitMQ = False\<rparr>
          (Dir 0x1ED [(''demo'', Dir 0x1ED [(''.devcontainer'', Dir 0x1ED
            [(''.env.devcontainer'', File 0x1A4 ''DB_NAME=PROJECT_DB_NAME'')])])]) = Inr fs'
        \<and> lookup fs' [''demo'', ''.devcontainer'', ''.env.devcontainer'']
          = Some (File 0x1A4 ''DB_NAME=my_app''))"
proof -
  have c: "Clean ''./demo'' = [''demo'']"
    by (simp add: Clean_def filepath_Join_def cleanStep_def)
  have n: "sanitizeName (map lowerByte) ''My-App'' = ''my_app''"
    by code_simp
  have r: "ReplaceAll ''DB_NAME=PROJECT_DB_NAME'' ''PROJECT_DB_NAME'' ''my_app'' = ''DB_NAME=my_app''"
    by code_simp
  show ?thesis
    using sanitizeName_database_name [where mapLower = "map lowerByte" and config =
      "\<lparr>ProjectName = ''My-App'', ProjectPath = ''./demo'', ModulePath = ''example.com/demo'',
            Database = ''postgresql'', UseRedis = False, UseRabbitMQ = False\<rparr>"
      and fs = "Dir 0x1ED [(''demo'', Dir 0x1ED [(''.devcontainer'', Dir 0x1ED
          [(''.env.devcontainer'', File 0x1A4 ''DB_NAME=PROJECT_DB_NAME'')])])]"
      and m = "0x1A4" and c = "''DB_NAME=PROJECT_DB_NAME''" and umask = "0x12",
      OF disjI2 [OF bytewise_sanitize],
      THEN conjunct2, THEN conjunct2, THEN conjunct2, THEN conjunct2, THEN conjunct2]
    by (simp add: c n r)
qed

section \<open>The compose document\<close>














end
